theory Spec2Isabelle
  imports
    Complex_Main
    "HOL-Library.AList"
    "HOL-Library.Multiset"
    "HOL-Library.Char_ord"
    "HOL-Library.List_Lexorder"
begin

section \<open>Python values, exceptions and builtins\<close>

text \<open>
  The scripts handle decoded JSON: \<open>None\<close>, booleans, integers, floats, strings, lists and
  dictionaries with string keys. A dictionary is an association list in insertion order; a
  lookup takes the first entry of a key. Python floats are modelled as exact reals (no
  rounding, no overflow, no NaN, no infinity); Python's unbounded integers are \<open>int\<close>. A
  string is a list of characters.
\<close>

datatype pyval =
    PNone
  | PBool bool
  | PInt int
  | PFloat real
  | PStr string
  | PList "pyval list"
  | PDict "(string \<times> pyval) list"

text \<open>A number as \<open>rank_score\<close> receives it: a Python \<open>int\<close> or a Python \<open>float\<close>.\<close>

datatype number = NInt int | NFloat real

text \<open>
  The reasons \<open>_get\<close> gives to \<open>SystemExit\<close>, in the order of the source: the 401 branch,
  the exhausted retries of the \<open>RequestException\<close> handler, the \<open>ValueError\<close>/\<open>TypeError\<close>
  handler, and the statement after the loop.
\<close>

datatype exit_reason = AuthFailed | Unreachable | InvalidResponse | AllRetries

text \<open>
  Exceptions. \<open>SystemExit\<close> derives from \<open>BaseException\<close>, all the others from
  \<open>Exception\<close>: a handler \<open>except Exception\<close> catches exactly the others.
\<close>

datatype exc =
    SystemExit exit_reason
  | RequestException
  | ValueError
  | TypeError
  | KeyError
  | ZeroDivisionError

fun is_Exception :: "exc \<Rightarrow> bool" where
  "is_Exception (SystemExit _) = False"
| "is_Exception _ = True"

text \<open>\<open>float(x)\<close> of a number, and \<open>a / b\<close>, which raises on a zero divisor.\<close>

fun py_float :: "number \<Rightarrow> real" where
  "py_float (NInt n) = real_of_int n"
| "py_float (NFloat r) = r"

definition py_truediv :: "real \<Rightarrow> real \<Rightarrow> exc + real" where
  "py_truediv a b = (if b = 0 then Inl ZeroDivisionError else Inr (a / b))"

section \<open>The ranking formula\<close>

text \<open>
  \<open>rank_score(vote_average, vote_count, popularity)\<close> of \<open>movie_finder.py\<close>. The arguments
  are optional numbers. \<open>isinstance(vote_count, int)\<close> holds of a Python \<open>int\<close> only, so a
  float or \<open>None\<close> vote count counts as 0. The two divisions of the Bayesian average are
  the only operations that can raise.
\<close>

definition rank_score :: "number option \<Rightarrow> number option \<Rightarrow> number option \<Rightarrow> exc + real" where
  "rank_score vote_average vote_count popularity =
     (let v = max 0 (case vote_count of Some (NInt n) \<Rightarrow> n | _ \<Rightarrow> 0);
          R = max 0 (min 10 (py_float (case vote_average of Some x \<Rightarrow> x | None \<Rightarrow> NFloat 0)));
          P = max 0 (py_float (case popularity of Some x \<Rightarrow> x | None \<Rightarrow> NFloat 0));
          m = 150;
          C = 65 / 10
      in case py_truediv (real_of_int v) (real_of_int (v + m)) of
           Inl e \<Rightarrow> Inl e
         | Inr wv \<Rightarrow>
             (case py_truediv (real_of_int m) (real_of_int (v + m)) of
                Inl e \<Rightarrow> Inl e
              | Inr wm \<Rightarrow>
                  (let bayes = wv * R + wm * C;
                       norm_popularity = min 10 (P / 100)
                   in Inr (7 / 10 * bayes + 3 / 10 * norm_popularity))))"

section \<open>Properties of the ranking formula\<close>

lemma weighted_sum_bounds:
  fixes b n :: real
  assumes "0 \<le> b" "b \<le> 10" "0 \<le> n" "n \<le> 10"
  shows "0 \<le> 7 / 10 * b + 3 / 10 * n" and "7 / 10 * b + 3 / 10 * n \<le> 10"
  using assms by simp_all

text \<open>The value \<open>rank_score\<close> returns, in closed form: the denominator is at least 150.\<close>

lemma rank_score_closed_form:
  "rank_score va vc po =
     Inr (7 / 10 *
            (real_of_int (max 0 (case vc of Some (NInt n) \<Rightarrow> n | _ \<Rightarrow> 0))
               / real_of_int (max 0 (case vc of Some (NInt n) \<Rightarrow> n | _ \<Rightarrow> 0) + 150)
               * max 0 (min 10 (py_float (case va of Some x \<Rightarrow> x | None \<Rightarrow> NFloat 0)))
             + 150 / real_of_int (max 0 (case vc of Some (NInt n) \<Rightarrow> n | _ \<Rightarrow> 0) + 150) * (65 / 10))
          + 3 / 10 * min 10 (max 0 (py_float (case po of Some x \<Rightarrow> x | None \<Rightarrow> NFloat 0)) / 100))"
proof -
  define v where "v = max 0 (case vc of Some (NInt n) \<Rightarrow> n | _ \<Rightarrow> 0)"
  have "0 \<le> v" by (simp add: v_def)
  then have "real_of_int (v + 150) \<noteq> 0" by linarith
  then show ?thesis
    unfolding rank_score_def Let_def py_truediv_def v_def [symmetric] by simp
qed

text \<open>The Bayesian average of a rating in \<open>[0, 10]\<close> with \<open>v \<ge> 0\<close> votes stays in \<open>[0, 10]\<close>.\<close>

lemma bayes_bounds:
  fixes R :: real and v :: int
  assumes "0 \<le> v" "0 \<le> R" "R \<le> 10"
  shows "0 \<le> real_of_int v / real_of_int (v + 150) * R + 150 / real_of_int (v + 150) * (65 / 10)"
    and "real_of_int v / real_of_int (v + 150) * R + 150 / real_of_int (v + 150) * (65 / 10) \<le> 10"
proof -
  define d where "d = real_of_int (v + 150)"
  have d: "0 < d" using assms(1) by (simp add: d_def)
  have v: "0 \<le> real_of_int v" using assms(1) by simp
  have eq: "real_of_int v / d * R + 150 / d * (65 / 10) = (real_of_int v * R + 975) / d"
    by (simp add: add_divide_distrib)
  have "0 \<le> real_of_int v * R" using v assms(2) by simp
  then have "0 \<le> (real_of_int v * R + 975) / d" using d by simp
  then show "0 \<le> real_of_int v / real_of_int (v + 150) * R + 150 / real_of_int (v + 150) * (65 / 10)"
    using eq by (simp add: d_def)
  have "real_of_int v * R \<le> real_of_int v * 10"
    using v assms(3) by (rule mult_left_mono [rotated])
  then have "real_of_int v * R + 975 \<le> 10 * d" by (simp add: d_def)
  then have "(real_of_int v * R + 975) / d \<le> 10" using d by (simp add: field_simps)
  then show "real_of_int v / real_of_int (v + 150) * R + 150 / real_of_int (v + 150) * (65 / 10) \<le> 10"
    using eq by (simp add: d_def)
qed

text \<open>
  C1. For a rating in \<open>[0, 10]\<close>, a vote count \<open>\<ge> 0\<close> and a popularity \<open>\<ge> 0\<close>,
  \<open>rank_score\<close> returns a value, and the value lies in the closed interval \<open>[0, 10]\<close>.
\<close>

theorem rank_score_in_0_10:
  assumes "0 \<le> rating" "rating \<le> 10" "0 \<le> voteCount" "0 \<le> popularity"
  shows "\<exists>s. rank_score (Some (NFloat rating)) (Some (NInt voteCount)) (Some (NFloat popularity)) = Inr s
           \<and> 0 \<le> s \<and> s \<le> 10"
proof -
  let ?b = "real_of_int voteCount / real_of_int (voteCount + 150) * rating
              + 150 / real_of_int (voteCount + 150) * (65 / 10)"
  let ?n = "min 10 (popularity / 100)"
  have b: "0 \<le> ?b" "?b \<le> 10" using bayes_bounds [OF assms(3) assms(1) assms(2)] by simp_all
  have n: "0 \<le> ?n" "?n \<le> 10" using assms(4) by simp_all
  have eq: "rank_score (Some (NFloat rating)) (Some (NInt voteCount)) (Some (NFloat popularity))
              = Inr (7 / 10 * ?b + 3 / 10 * ?n)"
    using assms by (simp add: rank_score_closed_form max_def min_def)
  have "0 \<le> 7 / 10 * ?b + 3 / 10 * ?n"
    by (rule weighted_sum_bounds(1) [OF b n])
  moreover have "7 / 10 * ?b + 3 / 10 * ?n \<le> 10"
    by (rule weighted_sum_bounds(2) [OF b n])
  ultimately show ?thesis using eq by blast
qed

theorem rank_score_in_0_10_witness:
  "(0::real) \<le> 8 \<and> (8::real) \<le> 10 \<and> (0::int) \<le> 500 \<and> (0::real) \<le> 45
     \<and> (\<exists>s. rank_score (Some (NFloat 8)) (Some (NInt 500)) (Some (NFloat 45)) = Inr s
              \<and> 0 \<le> s \<and> s \<le> 10)"
  using rank_score_in_0_10 [of 8 500 45] by simp









section \<open>The HTTP helper\<close>

text \<open>
  Python builtins whose full behaviour lies outside the repository are parameters of the
  model: \<open>int(s)\<close> and \<open>float(s)\<close> of a string (\<open>None\<close> when they raise \<open>ValueError\<close>) and
  \<open>str(x)\<close> of a value that is not a string.
\<close>

record builtins =
  int_of_str :: "string \<Rightarrow> int option"
  float_of_str :: "string \<Rightarrow> real option"
  repr :: "pyval \<Rightarrow> string"

text \<open>
  What \<open>r.json()\<close> does with the body of a response. It returns the decoded value, or
  raises when the body is not JSON: \<open>requests.exceptions.JSONDecodeError\<close>, which from
  requests 2.27 on derives from \<open>RequestException\<close> (through \<open>InvalidJSONError\<close>) as well
  as from \<open>ValueError\<close>; earlier versions raise a plain \<open>ValueError\<close>. Handlers are tried
  in the order of the source, so the first kind is taken by \<open>except RequestException\<close>.
\<close>

datatype json_body =
    Json pyval
  | NotJson_RequestException
  | NotJson_ValueError

record response =
  status_code :: int
  retry_after :: "string option"
  body :: json_body

text \<open>\<open>requests.get\<close> raises a \<open>RequestException\<close> (timeout, connection error) or returns.\<close>

datatype reply = Raises | Response response

text \<open>
  The state of a run: the number of requests issued so far, and the durations slept so
  far, in order. The server is a function from the index of a request to its reply.
\<close>

record world =
  requests :: nat
  sleeps :: "real list"

definition requests_get :: "(nat \<Rightarrow> reply) \<Rightarrow> world \<Rightarrow> reply \<times> world" where
  "requests_get server w = (server (requests w), w\<lparr>requests := requests w + 1\<rparr>)"

text \<open>\<open>time.sleep(d)\<close> raises \<open>ValueError\<close> on a negative duration.\<close>

definition time_sleep :: "real \<Rightarrow> world \<Rightarrow> (exc + unit) \<times> world" where
  "time_sleep d w =
     (if d < 0 then (Inl ValueError, w) else (Inr (), w\<lparr>sleeps := sleeps w @ [d]\<rparr>))"

text \<open>\<open>int(x)\<close> of a float truncates towards zero.\<close>

definition py_trunc :: "real \<Rightarrow> int" where
  "py_trunc x = (if 0 \<le> x then \<lfloor>x\<rfloor> else \<lceil>x\<rceil>)"

text \<open>\<open>int(r.headers.get('Retry-After', 1.5 * (2 ** attempt)))\<close>\<close>

definition retry_after_seconds :: "builtins \<Rightarrow> response \<Rightarrow> int \<Rightarrow> exc + int" where
  "retry_after_seconds bi r attempt =
     (case retry_after r of
        None \<Rightarrow> Inr (py_trunc (15 / 10 * 2 ^ nat attempt))
      | Some s \<Rightarrow> (case int_of_str bi s of None \<Rightarrow> Inl ValueError | Some n \<Rightarrow> Inr n))"

fun is_dict_or_list :: "pyval \<Rightarrow> bool" where
  "is_dict_or_list (PDict _) = True"
| "is_dict_or_list (PList _) = True"
| "is_dict_or_list _ = False"

text \<open>
  The loop \<open>for attempt in range(retries)\<close> of \<open>_get\<close>, from \<open>attempt\<close> on.
  \<open>last_exception\<close> tells whether a \<open>RequestException\<close> has been recorded. In the order of
  the source: the backoff sleep, the request, the 429 branch (which continues), the 401
  branch, \<open>raise_for_status\<close> (an \<open>HTTPError\<close>, a \<open>RequestException\<close>, for a status in
  400..599), the decoding and the check of the decoded value; then the handlers: a
  \<open>RequestException\<close> ends the call on the last attempt and continues otherwise, a
  \<open>ValueError\<close> or \<open>TypeError\<close> ends the call. After the loop the recorded exception is
  raised again, or \<open>SystemExit\<close>.
\<close>

function get_loop ::
  "builtins \<Rightarrow> (nat \<Rightarrow> reply) \<Rightarrow> int \<Rightarrow> int \<Rightarrow> bool \<Rightarrow> world \<Rightarrow> (exc + pyval) \<times> world" where
  "get_loop bi server retries attempt last_exception w =
     (if \<not> attempt < retries then
        (if last_exception then (Inl RequestException, w) else (Inl (SystemExit AllRetries), w))
      else
        (let w1 = (if attempt > 0 then snd (time_sleep (min (15 / 10 * 2 ^ nat attempt) 10) w) else w);
             rw = requests_get server w1;
             w2 = snd rw
         in case fst rw of
              Raises \<Rightarrow>
                (if attempt = retries - 1 then (Inl (SystemExit Unreachable), w2)
                 else get_loop bi server retries (attempt + 1) True w2)
            | Response r \<Rightarrow>
                (if status_code r = 429 then
                   (case retry_after_seconds bi r attempt of
                      Inl e \<Rightarrow> (Inl (SystemExit InvalidResponse), w2)
                    | Inr secs \<Rightarrow>
                        (case fst (time_sleep (real_of_int secs) w2) of
                           Inl e \<Rightarrow> (Inl (SystemExit InvalidResponse), w2)
                         | Inr u \<Rightarrow>
                             get_loop bi server retries (attempt + 1) last_exception
                               (snd (time_sleep (real_of_int secs) w2))))
                 else if status_code r = 401 then (Inl (SystemExit AuthFailed), w2)
                 else if 400 \<le> status_code r \<and> status_code r < 600 then
                   (if attempt = retries - 1 then (Inl (SystemExit Unreachable), w2)
                    else get_loop bi server retries (attempt + 1) True w2)
                 else
                   (case body r of
                      NotJson_RequestException \<Rightarrow>
                        (if attempt = retries - 1 then (Inl (SystemExit Unreachable), w2)
                         else get_loop bi server retries (attempt + 1) True w2)
                    | NotJson_ValueError \<Rightarrow> (Inl (SystemExit InvalidResponse), w2)
                    | Json data \<Rightarrow>
                        (if is_dict_or_list data then (Inr data, w2)
                         else (Inl (SystemExit InvalidResponse), w2))))))"
  by pat_completeness auto
termination
  by (relation "measure (\<lambda>(bi, server, retries, attempt, last_exception, w). nat (retries - attempt))") auto

declare get_loop.simps [simp del]

text \<open>\<open>_get(url, params, retries)\<close>; no caller passes \<open>retries\<close>, whose default is 3.\<close>

definition get :: "builtins \<Rightarrow> (nat \<Rightarrow> reply) \<Rightarrow> int \<Rightarrow> world \<Rightarrow> (exc + pyval) \<times> world" where
  "get bi server retries w = get_loop bi server retries 0 False w"

section \<open>Properties of the HTTP helper\<close>

text \<open>
  The state after the backoff sleep that opens every attempt but the first: the delay
  \<open>min(1.5 * 2 ** attempt, 10)\<close> is positive, so the sleep never raises.
\<close>

abbreviation backoff :: "int \<Rightarrow> world \<Rightarrow> world" where
  "backoff attempt w \<equiv>
     w\<lparr>sleeps := sleeps w @ (if attempt > 0 then [min (15 / 10 * 2 ^ nat attempt) 10] else [])\<rparr>"

lemma backoff_sleep:
  "(if attempt > 0 then snd (time_sleep (min (15 / 10 * 2 ^ nat attempt) 10) w) else w) = backoff attempt w"
proof -
  have "\<not> min (15 / 10 * 2 ^ nat attempt) 10 < (0::real)"
    by (simp add: min_def not_less)
  then show ?thesis by (simp add: time_sleep_def)
qed

text \<open>One iteration of the loop, by the reply of the server to its request.\<close>

lemma get_loop_exhausted:
  "\<not> attempt < retries \<Longrightarrow>
   get_loop bi server retries attempt le w =
     (if le then (Inl RequestException, w) else (Inl (SystemExit AllRetries), w))"
  by (subst get_loop.simps) simp

lemma get_loop_raises:
  assumes "attempt < retries" "server (requests w) = Raises"
  shows "get_loop bi server retries attempt le w =
     (if attempt = retries - 1
      then (Inl (SystemExit Unreachable), (backoff attempt w)\<lparr>requests := requests w + 1\<rparr>)
      else get_loop bi server retries (attempt + 1) True ((backoff attempt w)\<lparr>requests := requests w + 1\<rparr>))"
  using assms
  by (subst get_loop.simps) (simp add: backoff_sleep Let_def requests_get_def del: One_nat_def)

lemma get_loop_response:
  assumes "attempt < retries" "server (requests w) = Response r"
  shows "get_loop bi server retries attempt le w =
     (let w2 = (backoff attempt w)\<lparr>requests := requests w + 1\<rparr> in
      if status_code r = 429 then
        (case retry_after_seconds bi r attempt of
           Inl e \<Rightarrow> (Inl (SystemExit InvalidResponse), w2)
         | Inr secs \<Rightarrow>
             (if secs < 0 then (Inl (SystemExit InvalidResponse), w2)
              else get_loop bi server retries (attempt + 1) le (w2\<lparr>sleeps := sleeps w2 @ [real_of_int secs]\<rparr>)))
      else if status_code r = 401 then (Inl (SystemExit AuthFailed), w2)
      else if 400 \<le> status_code r \<and> status_code r < 600 then
        (if attempt = retries - 1 then (Inl (SystemExit Unreachable), w2)
         else get_loop bi server retries (attempt + 1) True w2)
      else
        (case body r of
           NotJson_RequestException \<Rightarrow>
             (if attempt = retries - 1 then (Inl (SystemExit Unreachable), w2)
              else get_loop bi server retries (attempt + 1) True w2)
         | NotJson_ValueError \<Rightarrow> (Inl (SystemExit InvalidResponse), w2)
         | Json data \<Rightarrow>
             (if is_dict_or_list data then (Inr data, w2)
              else (Inl (SystemExit InvalidResponse), w2))))"
  using assms
  by (subst get_loop.simps)
     (simp add: backoff_sleep Let_def requests_get_def time_sleep_def split: sum.splits json_body.splits del: One_nat_def)


subsection \<open>A 401 reply ends the call\<close>

text \<open>
  \<open>stops_at_401 server w (res, w')\<close>: a computation that starts in \<open>w\<close> and ends in \<open>w'\<close> with
  the result \<open>res\<close> issued the requests \<open>requests w, ..., requests w' - 1\<close>; if the server
  answered one of them with status 401, that request was the last one and the result is
  \<open>SystemExit\<close> for the failed authentication.
\<close>

fun is_401 :: "reply \<Rightarrow> bool" where
  "is_401 (Response r) = (status_code r = 401)"
| "is_401 Raises = False"

definition stops_at_401 :: "(nat \<Rightarrow> reply) \<Rightarrow> world \<Rightarrow> (exc + 'a) \<times> world \<Rightarrow> bool" where
  "stops_at_401 server w rw \<longleftrightarrow>
     requests w \<le> requests (snd rw)
     \<and> (\<forall>i. requests w \<le> i \<and> i < requests (snd rw) \<and> is_401 (server i)
            \<longrightarrow> fst rw = Inl (SystemExit AuthFailed) \<and> requests (snd rw) = i + 1)"

lemma stops_at_401_none: "requests w' = requests w \<Longrightarrow> stops_at_401 server w (res, w')"
  by (auto simp: stops_at_401_def)

lemma stops_at_401_one:
  assumes "requests w' = requests w + 1"
    and "is_401 (server (requests w)) \<Longrightarrow> res = Inl (SystemExit AuthFailed)"
  shows "stops_at_401 server w (res, w')"
  unfolding stops_at_401_def
proof (rule conjI, goal_cases)
  case 1
  show ?case using assms(1) by simp
next
  case 2
  show ?case
  proof (intro allI impI)
  fix i
  assume i: "requests w \<le> i \<and> i < requests (snd (res, w')) \<and> is_401 (server i)"
  then have eq: "i = requests w" using assms(1) by simp
  then have "res = Inl (SystemExit AuthFailed)" using i assms(2) by blast
  then show "fst (res, w') = Inl (SystemExit AuthFailed) \<and> requests (snd (res, w')) = i + 1"
    using eq assms(1) by simp
  qed
qed

lemma stops_at_401_after:
  assumes "requests w' = requests w + 1"
    and "\<not> is_401 (server (requests w))"
    and "stops_at_401 server w' rw"
  shows "stops_at_401 server w rw"
  unfolding stops_at_401_def
proof (rule conjI, goal_cases)
  case 1
  show ?case using assms(1,3) by (simp add: stops_at_401_def)
next
  case 2
  show ?case
  proof (intro allI impI)
  fix i
  assume i: "requests w \<le> i \<and> i < requests (snd rw) \<and> is_401 (server i)"
  then have "i \<noteq> requests w" using assms(2) by auto
  then have "requests w' \<le> i" using i assms(1) by simp
  then have "requests w' \<le> i \<and> i < requests (snd rw) \<and> is_401 (server i)" using i by simp
  then show "fst rw = Inl (SystemExit AuthFailed) \<and> requests (snd rw) = i + 1"
    using assms(3) unfolding stops_at_401_def by blast
  qed
qed

lemma get_loop_stops_at_401:
  "stops_at_401 server w (get_loop bi server retries attempt le w)"
proof (induction "nat (retries - attempt)" arbitrary: attempt le w)
  case 0
  then have "\<not> attempt < retries" by simp
  then show ?case by (simp add: get_loop_exhausted stops_at_401_none)
next
  case (Suc n)
  then have lt: "attempt < retries" and n: "n = nat (retries - (attempt + 1))" by simp_all
  note IH = Suc.hyps(1) [OF n]
  show ?case
  proof (cases "server (requests w)")
    case Raises
    have one: "stops_at_401 server w (res :: exc + pyval, w')"
      if "requests w' = Suc (requests w)" for res w'
      by (rule stops_at_401_one) (simp_all add: Raises that)
    have rec: "stops_at_401 server w (get_loop bi server retries a' le' w')"
      if "requests w' = Suc (requests w)" "a' = attempt + 1" for le' w' a'
      unfolding that(2) by (rule stops_at_401_after [OF _ _ IH]) (simp_all add: Raises that)
    show ?thesis
      by (simp add: get_loop_raises [where server = server and w = w, OF lt Raises] one rec)
  next
    case (Response r)
    have one: "stops_at_401 server w (res :: exc + pyval, w')"
      if "status_code r \<noteq> 401" "requests w' = Suc (requests w)" for res w'
      by (rule stops_at_401_one) (simp_all add: Response that)
    have auth: "stops_at_401 server w (Inl (SystemExit AuthFailed) :: exc + pyval, w')"
      if "requests w' = Suc (requests w)" for w'
      by (rule stops_at_401_one) (simp_all add: that)
    have rec: "stops_at_401 server w (get_loop bi server retries a' le' w')"
      if "status_code r \<noteq> 401" "requests w' = Suc (requests w)" "a' = attempt + 1" for le' w' a'
      unfolding that(3) by (rule stops_at_401_after [OF _ _ IH]) (simp_all add: Response that)
    show ?thesis
      by (simp add: get_loop_response [where server = server and w = w, OF lt Response]
            Let_def one auth rec split: sum.splits json_body.splits)
  qed
qed

subsection \<open>A body that does not decode\<close>

text \<open>
  C4. A response whose body fails to decode as a JSON object or array should make the call
  fail at once, with no further attempt. The code does so when the decoded value is not a
  dictionary or list, and when the decoder raises a plain \<open>ValueError\<close>
  (\<open>get_loop_fails_at_once_on_unstructured_body\<close> below). But with the decoding error of
  requests 2.27 and later, a \<open>RequestException\<close>, the first handler takes the error and the
  request is repeated: on a server that always answers 200 with a body that is not JSON,
  the call issues all 3 requests, sleeps 3 and 6 seconds between them, and ends with the
  message of an unreachable server.
\<close>

theorem get_retries_undecodable_body:
  "get bi (\<lambda>i. Response \<lparr>status_code = 200, retry_after = None, body = NotJson_RequestException\<rparr>) 3
       \<lparr>requests = 0, sleeps = []\<rparr>
     = (Inl (SystemExit Unreachable), \<lparr>requests = 3, sleeps = [3, 6]\<rparr>)"
  by (simp add: get_def get_loop_response get_loop_exhausted)

text \<open>
  The part of the behaviour that agrees with C4: a response that passes the status checks
  and whose body decodes to a value that is neither a dictionary nor a list, or makes the
  decoder raise a plain \<open>ValueError\<close>, ends the call with \<open>SystemExit\<close> in the same
  attempt, whatever attempts remain.
\<close>

lemma get_loop_fails_at_once_on_unstructured_body:
  assumes "attempt < retries" "server (requests w) = Response r"
    and "status_code r \<noteq> 429" "status_code r \<noteq> 401" "\<not> (400 \<le> status_code r \<and> status_code r < 600)"
    and "body r = NotJson_ValueError \<or> (\<exists>v. body r = Json v \<and> \<not> is_dict_or_list v)"
  shows "get_loop bi server retries attempt le w =
           (Inl (SystemExit InvalidResponse), (backoff attempt w)\<lparr>requests := requests w + 1\<rparr>)"
  using assms(3-) by (auto simp add: get_loop_response [where server = server and w = w, OF assms(1,2)])

subsection \<open>Status 429\<close>




section \<open>Python helpers of the pipeline\<close>

text \<open>Truth value of a value, and \<open>x or d\<close>.\<close>

fun py_truthy :: "pyval \<Rightarrow> bool" where
  "py_truthy PNone = False"
| "py_truthy (PBool b) = b"
| "py_truthy (PInt n) = (n \<noteq> 0)"
| "py_truthy (PFloat r) = (r \<noteq> 0)"
| "py_truthy (PStr s) = (s \<noteq> [])"
| "py_truthy (PList xs) = (xs \<noteq> [])"
| "py_truthy (PDict d) = (d \<noteq> [])"

definition py_or :: "pyval \<Rightarrow> pyval \<Rightarrow> pyval" where
  "py_or x d = (if py_truthy x then x else d)"

text \<open>\<open>d.get(k, default)\<close>; \<open>d.get(k)\<close> is \<open>dict_get d k PNone\<close>.\<close>

definition dict_get :: "(string \<times> pyval) list \<Rightarrow> string \<Rightarrow> pyval \<Rightarrow> pyval" where
  "dict_get d k dflt = (case map_of d k of Some v \<Rightarrow> v | None \<Rightarrow> dflt)"

text \<open>\<open>isinstance(x, int)\<close> holds of integers and of booleans (\<open>True == 1\<close>).\<close>

fun as_int :: "pyval \<Rightarrow> int option" where
  "as_int (PInt n) = Some n"
| "as_int (PBool b) = Some (if b then 1 else 0)"
| "as_int _ = None"

text \<open>
  Iteration (\<open>for x in v\<close>): over the elements of a list, the characters of a string, the
  keys of a dictionary; any other value raises \<open>TypeError\<close>.
\<close>

fun py_iter :: "pyval \<Rightarrow> exc + pyval list" where
  "py_iter (PList xs) = Inr xs"
| "py_iter (PStr s) = Inr (map (\<lambda>c. PStr [c]) s)"
| "py_iter (PDict d) = Inr (map (\<lambda>kv. PStr (fst kv)) d)"
| "py_iter _ = Inl TypeError"

text \<open>
  Strings. Characters are taken as ASCII code points: \<open>lower\<close> maps \<open>A..Z\<close> to \<open>a..z\<close>,
  \<open>strip\<close> removes the ASCII white space at both ends. \<open>str(x)\<close> is \<open>x\<close> for a string.
\<close>

definition lower_char :: "char \<Rightarrow> char" where
  "lower_char c = (let n = (of_char c :: nat) in if 65 \<le> n \<and> n \<le> 90 then char_of (n + 32) else c)"

definition py_lower :: "string \<Rightarrow> string" where
  "py_lower s = map lower_char s"

definition is_space :: "char \<Rightarrow> bool" where
  "is_space c = (let n = (of_char c :: nat) in (9 \<le> n \<and> n \<le> 13) \<or> (28 \<le> n \<and> n \<le> 32))"

definition py_strip :: "string \<Rightarrow> string" where
  "py_strip s = rev (dropWhile is_space (rev (dropWhile is_space s)))"

definition py_str :: "builtins \<Rightarrow> pyval \<Rightarrow> string" where
  "py_str bi v = (case v of PStr s \<Rightarrow> s | _ \<Rightarrow> repr bi v)"

text \<open>\<open>", ".join(xs)\<close>\<close>

fun join_comma :: "string list \<Rightarrow> string" where
  "join_comma [] = []"
| "join_comma [x] = x"
| "join_comma (x # y # ys) = x @ '', '' @ join_comma (y # ys)"

text \<open>
  \<open>_norm(s)\<close>: lowercase, then drop every character outside \<open>a..z\<close> and \<open>0..9\<close>.
\<close>

definition norm_str :: "string \<Rightarrow> string" where
  "norm_str s =
     filter (\<lambda>c. let n = (of_char c :: nat) in (97 \<le> n \<and> n \<le> 122) \<or> (48 \<le> n \<and> n \<le> 57))
       (py_lower s)"

section \<open>The directories\<close>

text \<open>
  \<open>fetch_provider_id_map\<close>: one request; a reply that is not a dictionary raises
  \<open>ValueError\<close>. Each entry of \<open>results\<close> that is a dictionary with a non-empty stripped
  name and an integer id is entered into both maps; an assignment to a key already present
  replaces its value and keeps its place.
\<close>

definition add_provider ::
  "builtins \<Rightarrow> pyval \<Rightarrow> (string \<times> int) list \<times> (int \<times> string) list
     \<Rightarrow> (string \<times> int) list \<times> (int \<times> string) list" where
  "add_provider bi p maps =
     (case p of
        PDict pd \<Rightarrow>
          (let name = py_strip (py_str bi (dict_get pd ''provider_name'' (PStr [])));
               pid = dict_get pd ''provider_id'' PNone
           in case as_int pid of
                Some n \<Rightarrow>
                  if name \<noteq> []
                  then (AList.update (py_lower name) n (fst maps), AList.update n name (snd maps))
                  else maps
              | None \<Rightarrow> maps)
      | _ \<Rightarrow> maps)"

definition fetch_provider_id_map ::
  "builtins \<Rightarrow> (nat \<Rightarrow> reply) \<Rightarrow> world
     \<Rightarrow> (exc + (string \<times> int) list \<times> (int \<times> string) list) \<times> world" where
  "fetch_provider_id_map bi server w =
     (let r = get bi server 3 w in
      case fst r of
        Inl e \<Rightarrow> (Inl e, snd r)
      | Inr data \<Rightarrow>
          (case data of
             PDict d \<Rightarrow>
               (case py_iter (dict_get d ''results'' (PList [])) of
                  Inl e \<Rightarrow> (Inl e, snd r)
                | Inr ps \<Rightarrow> (Inr (fold (add_provider bi) ps ([], [])), snd r))
           | _ \<Rightarrow> (Inl ValueError, snd r)))"

text \<open>
  \<open>fetch_genre_map\<close>: the entries of \<open>genres\<close> that are dictionaries with an integer
  \<open>id\<close> and a string \<open>name\<close>.
\<close>

definition add_genre :: "pyval \<Rightarrow> (int \<times> string) list \<Rightarrow> (int \<times> string) list" where
  "add_genre g m =
     (case g of
        PDict gd \<Rightarrow>
          (case map_of gd ''id'' of
             Some i \<Rightarrow>
               (case map_of gd ''name'' of
                  Some (PStr name) \<Rightarrow>
                    (case as_int i of Some k \<Rightarrow> AList.update k name m | None \<Rightarrow> m)
                | _ \<Rightarrow> m)
           | None \<Rightarrow> m)
      | _ \<Rightarrow> m)"

definition fetch_genre_map ::
  "builtins \<Rightarrow> (nat \<Rightarrow> reply) \<Rightarrow> world \<Rightarrow> (exc + (int \<times> string) list) \<times> world" where
  "fetch_genre_map bi server w =
     (let r = get bi server 3 w in
      case fst r of
        Inl e \<Rightarrow> (Inl e, snd r)
      | Inr data \<Rightarrow>
          (case data of
             PDict d \<Rightarrow>
               (case py_iter (dict_get d ''genres'' (PList [])) of
                  Inl e \<Rightarrow> (Inl e, snd r)
                | Inr gs \<Rightarrow> (Inr (fold add_genre gs []), snd r))
           | _ \<Rightarrow> (Inl ValueError, snd r)))"

text \<open>
  \<open>resolve_preferred_ids(names, id_map)\<close>: every id of the map when \<open>names\<close> is empty;
  otherwise the ids whose normalized name is a normalized wanted name. The dictionary
  comprehension enters the normalized names in the order of \<open>id_map\<close>, a later entry
  replacing an earlier one of the same normalized name.
\<close>

definition resolve_preferred_ids :: "string set \<Rightarrow> (string \<times> int) list \<Rightarrow> int set" where
  "resolve_preferred_ids names id_map =
     (if names = {} then snd ` set id_map
      else
        (let norm_to_pid = fold (\<lambda>kv. AList.update (norm_str (fst kv)) (snd kv)) id_map [];
             wanted = norm_str ` names
         in \<Union>n\<in>wanted. (case map_of norm_to_pid n of Some v \<Rightarrow> {v} | None \<Rightarrow> {})))"

text \<open>
  The first lines of \<open>main\<close>: the allowed ids are the resolved ones, or the keys of
  \<open>id_to_name\<close> when none was resolved.
\<close>

definition main_allowed_ids ::
  "string set \<Rightarrow> (string \<times> int) list \<Rightarrow> (int \<times> string) list \<Rightarrow> int set" where
  "main_allowed_ids names id_map id_to_name =
     (let allowed_ids = resolve_preferred_ids names id_map
      in if allowed_ids = {} then fst ` set id_to_name else allowed_ids)"

section \<open>Discovery and the per-movie fetches\<close>

text \<open>
  \<open>discover_new_movies\<close>, the loop \<open>for page in range(1, pages + 1)\<close> from \<open>page\<close> on.
  Inside the \<open>try\<close> only \<open>_get\<close> raises. The handler \<open>except Exception\<close> skips the page;
  \<open>SystemExit\<close> is not an \<open>Exception\<close> and leaves the function. A reply that is not a
  dictionary, or whose \<open>results\<close> is not a list, skips the page; a \<open>total_pages\<close> that is
  not an integer, or a last page, ends the loop.
\<close>

function discover_loop ::
  "builtins \<Rightarrow> (nat \<Rightarrow> reply) \<Rightarrow> nat \<Rightarrow> nat \<Rightarrow> pyval list \<Rightarrow> world
     \<Rightarrow> (exc + pyval list) \<times> world" where
  "discover_loop bi server pages page results w =
     (if pages < page then (Inr results, w)
      else
        (let r = get bi server 3 w in
         case fst r of
           Inl e \<Rightarrow>
             (if is_Exception e then discover_loop bi server pages (page + 1) results (snd r)
              else (Inl e, snd r))
         | Inr data \<Rightarrow>
             (case data of
                PDict d \<Rightarrow>
                  (case dict_get d ''results'' (PList []) of
                     PList page_results \<Rightarrow>
                       (case as_int (dict_get d ''total_pages'' (PInt 1)) of
                          None \<Rightarrow> (Inr (results @ page_results), snd r)
                        | Some total_pages \<Rightarrow>
                            (if int page \<ge> total_pages then (Inr (results @ page_results), snd r)
                             else discover_loop bi server pages (page + 1)
                                    (results @ page_results) (snd r)))
                   | _ \<Rightarrow> discover_loop bi server pages (page + 1) results (snd r))
              | _ \<Rightarrow> discover_loop bi server pages (page + 1) results (snd r))))"
  by pat_completeness auto
termination
  by (relation "measure (\<lambda>(bi, server, pages, page, results, w). Suc pages - page)") auto

declare discover_loop.simps [simp del]

definition discover_new_movies ::
  "builtins \<Rightarrow> (nat \<Rightarrow> reply) \<Rightarrow> nat \<Rightarrow> world \<Rightarrow> (exc + pyval list) \<times> world" where
  "discover_new_movies bi server pages w = discover_loop bi server pages 1 [] w"

text \<open>
  \<open>get_watch_providers(movie_id)\<close>: the dictionary of the country inside \<open>results\<close>, the
  empty dictionary when a level is missing or not a dictionary, and when \<open>_get\<close> raises
  an \<open>Exception\<close>. \<open>COUNTRY\<close> is a parameter. The id only enters the URL.
\<close>

definition get_watch_providers ::
  "builtins \<Rightarrow> (nat \<Rightarrow> reply) \<Rightarrow> string \<Rightarrow> pyval \<Rightarrow> world
     \<Rightarrow> (exc + (string \<times> pyval) list) \<times> world" where
  "get_watch_providers bi server country movie_id w =
     (let r = get bi server 3 w in
      case fst r of
        Inl e \<Rightarrow> (if is_Exception e then (Inr [], snd r) else (Inl e, snd r))
      | Inr data \<Rightarrow>
          (case data of
             PDict d \<Rightarrow>
               (case dict_get d ''results'' (PDict []) of
                  PDict results \<Rightarrow>
                    (case dict_get results country (PDict []) of
                       PDict country_data \<Rightarrow> (Inr country_data, snd r)
                     | _ \<Rightarrow> (Inr [], snd r))
                | _ \<Rightarrow> (Inr [], snd r))
           | _ \<Rightarrow> (Inr [], snd r)))"

text \<open>\<open>get_imdb_id(movie_id)\<close>: \<open>str(imdb_id)\<close> when the field is truthy, \<open>None\<close> otherwise.\<close>

definition get_imdb_id ::
  "builtins \<Rightarrow> (nat \<Rightarrow> reply) \<Rightarrow> pyval \<Rightarrow> world \<Rightarrow> (exc + string option) \<times> world" where
  "get_imdb_id bi server movie_id w =
     (let r = get bi server 3 w in
      case fst r of
        Inl e \<Rightarrow> (if is_Exception e then (Inr None, snd r) else (Inl e, snd r))
      | Inr data \<Rightarrow>
          (case data of
             PDict d \<Rightarrow>
               (let imdb_id = dict_get d ''imdb_id'' PNone
                in (Inr (if py_truthy imdb_id then Some (py_str bi imdb_id) else None), snd r))
           | _ \<Rightarrow> (Inr None, snd r)))"

section \<open>Picking the providers\<close>

text \<open>
  \<open>pick_flatrate_providers(provider_section, allowed_ids)\<close>. An item contributes its
  stripped name when it is a dictionary whose \<open>provider_id\<close> is an integer of the allowed
  set and whose \<open>provider_name\<close> is a string that is not empty once stripped. The result
  is \<open>sorted(set(picked))\<close>.
\<close>

definition pick_item :: "int set \<Rightarrow> pyval \<Rightarrow> string list" where
  "pick_item allowed_ids item =
     (case item of
        PDict it \<Rightarrow>
          (case as_int (dict_get it ''provider_id'' PNone) of
             Some provider_id \<Rightarrow>
               (if provider_id \<in> allowed_ids then
                  (case dict_get it ''provider_name'' PNone of
                     PStr name \<Rightarrow> (if py_strip name \<noteq> [] then [py_strip name] else [])
                   | _ \<Rightarrow> [])
                else [])
           | None \<Rightarrow> [])
      | _ \<Rightarrow> [])"

definition pick_section :: "(string \<times> pyval) list \<Rightarrow> int set \<Rightarrow> string \<Rightarrow> string list" where
  "pick_section provider_section allowed_ids section_name =
     (case dict_get provider_section section_name (PList []) of
        PList section_data \<Rightarrow> concat (map (pick_item allowed_ids) section_data)
      | _ \<Rightarrow> [])"

definition pick_flatrate_providers :: "(string \<times> pyval) list \<Rightarrow> int set \<Rightarrow> string list" where
  "pick_flatrate_providers provider_section allowed_ids =
     (let picked = pick_section provider_section allowed_ids ''flatrate''
                     @ pick_section provider_section allowed_ids ''ads''
      in sort (remdups picked))"

section \<open>The fields of a movie\<close>

text \<open>
  \<open>round(x, 1)\<close>: a float is rounded to one decimal, half to even; an integer (or
  boolean) is returned as an integer; any other value raises \<open>TypeError\<close>.
\<close>

definition round_half_even :: "real \<Rightarrow> int" where
  "round_half_even y =
     (let f = \<lfloor>y\<rfloor>; d = y - real_of_int f
      in if d < 1 / 2 then f else if 1 / 2 < d then f + 1 else if even f then f else f + 1)"

fun py_round1 :: "pyval \<Rightarrow> exc + number" where
  "py_round1 (PFloat r) = Inr (NFloat (real_of_int (round_half_even (r * 10)) / 10))"
| "py_round1 (PInt n) = Inr (NInt n)"
| "py_round1 (PBool b) = Inr (NInt (if b then 1 else 0))"
| "py_round1 _ = Inl TypeError"

text \<open>\<open>int(x)\<close> and \<open>float(x)\<close> of a value.\<close>

fun py_int :: "builtins \<Rightarrow> pyval \<Rightarrow> exc + int" where
  "py_int bi (PInt n) = Inr n"
| "py_int bi (PBool b) = Inr (if b then 1 else 0)"
| "py_int bi (PFloat r) = Inr (py_trunc r)"
| "py_int bi (PStr s) = (case int_of_str bi s of Some n \<Rightarrow> Inr n | None \<Rightarrow> Inl ValueError)"
| "py_int bi _ = Inl TypeError"

fun py_float_of :: "builtins \<Rightarrow> pyval \<Rightarrow> exc + real" where
  "py_float_of bi (PInt n) = Inr (real_of_int n)"
| "py_float_of bi (PBool b) = Inr (if b then 1 else 0)"
| "py_float_of bi (PFloat r) = Inr r"
| "py_float_of bi (PStr s) = (case float_of_str bi s of Some r \<Rightarrow> Inr r | None \<Rightarrow> Inl ValueError)"
| "py_float_of bi _ = Inl TypeError"

text \<open>
  \<open>x[:4]\<close>: the first four characters of a string or elements of a list; a dictionary
  raises \<open>KeyError\<close> (a slice is hashable from Python 3.12 on), a number \<open>TypeError\<close>.
\<close>

fun py_slice4 :: "pyval \<Rightarrow> exc + pyval" where
  "py_slice4 (PStr s) = Inr (PStr (take 4 s))"
| "py_slice4 (PList xs) = Inr (PList (take 4 xs))"
| "py_slice4 (PDict d) = Inl KeyError"
| "py_slice4 _ = Inl TypeError"

text \<open>
  The entries of the dictionary both scripts build for a candidate \<open>m\<close>
  (\<open>main\<close> of \<open>movie_finder.py\<close> and \<open>load_movies\<close> of \<open>main.py\<close>, with the same expressions).
\<close>

definition field_title :: "(string \<times> pyval) list \<Rightarrow> pyval" where
  "field_title m = py_or (dict_get m ''title'' PNone) (PStr [])"

definition field_year :: "(string \<times> pyval) list \<Rightarrow> exc + pyval" where
  "field_year m = py_slice4 (py_or (dict_get m ''release_date'' PNone) (PStr []))"

definition field_rating :: "(string \<times> pyval) list \<Rightarrow> exc + number" where
  "field_rating m = py_round1 (dict_get m ''vote_average'' (PFloat 0))"

definition field_votes :: "builtins \<Rightarrow> (string \<times> pyval) list \<Rightarrow> exc + int" where
  "field_votes bi m = py_int bi (py_or (dict_get m ''vote_count'' (PInt 0)) (PInt 0))"

definition field_popularity :: "builtins \<Rightarrow> (string \<times> pyval) list \<Rightarrow> exc + real" where
  "field_popularity bi m = py_float_of bi (py_or (dict_get m ''popularity'' (PFloat 0)) (PFloat 0))"

text \<open>
  The genres: \<open>[genre_map[g] for g in genre_ids if g in genre_map] or ["Uncategorized"]\<close>.
  The test \<open>g in genre_map\<close> hashes \<open>g\<close>: a list or dictionary raises \<open>TypeError\<close>; an
  integer, a boolean and a float of integral value are looked up as that integer.
\<close>

fun genre_key :: "pyval \<Rightarrow> exc + int option" where
  "genre_key (PInt n) = Inr (Some n)"
| "genre_key (PBool b) = Inr (Some (if b then 1 else 0))"
| "genre_key (PFloat r) = Inr (if r = real_of_int \<lfloor>r\<rfloor> then Some \<lfloor>r\<rfloor> else None)"
| "genre_key PNone = Inr None"
| "genre_key (PStr s) = Inr None"
| "genre_key (PList xs) = Inl TypeError"
| "genre_key (PDict d) = Inl TypeError"

fun resolve_genres :: "(int \<times> string) list \<Rightarrow> pyval list \<Rightarrow> exc + string list" where
  "resolve_genres genre_map [] = Inr []"
| "resolve_genres genre_map (g # gs) =
     (case genre_key g of
        Inl e \<Rightarrow> Inl e
      | Inr k \<Rightarrow>
          (case resolve_genres genre_map gs of
             Inl e \<Rightarrow> Inl e
           | Inr names \<Rightarrow>
               Inr ((case k of
                       Some i \<Rightarrow> (case map_of genre_map i of Some name \<Rightarrow> [name] | None \<Rightarrow> [])
                     | None \<Rightarrow> []) @ names)))"

definition field_genres :: "(int \<times> string) list \<Rightarrow> (string \<times> pyval) list \<Rightarrow> exc + string list" where
  "field_genres genre_map m =
     (case py_iter (py_or (dict_get m ''genre_ids'' PNone) (PList [])) of
        Inl e \<Rightarrow> Inl e
      | Inr genre_ids \<Rightarrow>
          (case resolve_genres genre_map genre_ids of
             Inl e \<Rightarrow> Inl e
           | Inr names \<Rightarrow> Inr (if names = [] then [''Uncategorized''] else names)))"

text \<open>
  The record of a movie: the keys both scripts share, then \<open>imdb_link\<close> in
  \<open>movie_finder.py\<close> and \<open>imdb_id\<close> in \<open>main.py\<close>.
\<close>

record entry =
  title :: pyval
  year :: pyval
  rating :: number
  votes :: int
  popularity :: real
  providers :: string
  genres :: "string list"

record movie = entry +
  imdb_link :: string

record movie_data = entry +
  imdb_id :: "string option"

text \<open>
  The dictionary \<open>main\<close> appends for a candidate with the picked \<open>providers\<close>. The
  genres are computed before the dictionary, whose entries are evaluated in order.
\<close>

definition main_movie ::
  "builtins \<Rightarrow> (int \<times> string) list \<Rightarrow> (string \<times> pyval) list \<Rightarrow> string list \<Rightarrow> string option
     \<Rightarrow> exc + movie" where
  "main_movie bi genre_map m provider_names imdb =
     (let link = (case imdb of
                    Some s \<Rightarrow> if s \<noteq> [] then ''https://www.imdb.com/title/'' @ s @ ''/'' else []
                  | None \<Rightarrow> [])
      in case field_genres genre_map m of
           Inl e \<Rightarrow> Inl e
         | Inr gs \<Rightarrow>
             (case field_year m of
                Inl e \<Rightarrow> Inl e
              | Inr y \<Rightarrow>
                  (case field_rating m of
                     Inl e \<Rightarrow> Inl e
                   | Inr r \<Rightarrow>
                       (case field_votes bi m of
                          Inl e \<Rightarrow> Inl e
                        | Inr v \<Rightarrow>
                            (case field_popularity bi m of
                               Inl e \<Rightarrow> Inl e
                             | Inr p \<Rightarrow>
                                 Inr \<lparr>title = field_title m, year = y, rating = r, votes = v,
                                      popularity = p, providers = join_comma provider_names,
                                      genres = gs, imdb_link = link\<rparr>)))))"

text \<open>The dictionary \<open>load_movies\<close> appends: the same entries, with \<open>imdb_id\<close> as fetched.\<close>

definition load_movies_movie_data ::
  "builtins \<Rightarrow> (int \<times> string) list \<Rightarrow> (string \<times> pyval) list \<Rightarrow> string list \<Rightarrow> string option
     \<Rightarrow> exc + movie_data" where
  "load_movies_movie_data bi genre_map m provider_names imdb =
     (case field_genres genre_map m of
        Inl e \<Rightarrow> Inl e
      | Inr gs \<Rightarrow>
          (case field_year m of
             Inl e \<Rightarrow> Inl e
           | Inr y \<Rightarrow>
               (case field_rating m of
                  Inl e \<Rightarrow> Inl e
                | Inr r \<Rightarrow>
                    (case field_votes bi m of
                       Inl e \<Rightarrow> Inl e
                     | Inr v \<Rightarrow>
                         (case field_popularity bi m of
                            Inl e \<Rightarrow> Inl e
                          | Inr p \<Rightarrow>
                              Inr \<lparr>title = field_title m, year = y, rating = r, votes = v,
                                   popularity = p, providers = join_comma provider_names,
                                   genres = gs, imdb_id = imdb\<rparr>)))))"

section \<open>The enrichment loop of main\<close>

text \<open>
  The body of \<open>for m in candidates\<close>: \<open>m["id"]\<close> raises \<open>TypeError\<close> on a candidate that is
  not a dictionary and \<open>KeyError\<close> on a missing key. The result is \<open>None\<close> when the
  candidate is skipped (\<open>continue\<close>) and the appended movie otherwise.
\<close>

definition main_candidate ::
  "builtins \<Rightarrow> (nat \<Rightarrow> reply) \<Rightarrow> string \<Rightarrow> int set \<Rightarrow> (int \<times> string) list \<Rightarrow> pyval \<Rightarrow> world
     \<Rightarrow> (exc + movie option) \<times> world" where
  "main_candidate bi server country allowed_ids genre_map m w =
     (case m of
        PDict md \<Rightarrow>
          (case map_of md ''id'' of
             None \<Rightarrow> (Inl KeyError, w)
           | Some pid \<Rightarrow>
               (let r1 = get_watch_providers bi server country pid w in
                case fst r1 of
                  Inl e \<Rightarrow> (Inl e, snd r1)
                | Inr wp \<Rightarrow>
                    (let provider_names = pick_flatrate_providers wp allowed_ids in
                     if provider_names = [] then (Inr None, snd r1)
                     else
                       (let r2 = get_imdb_id bi server pid (snd r1) in
                        case fst r2 of
                          Inl e \<Rightarrow> (Inl e, snd r2)
                        | Inr imdb \<Rightarrow>
                            (case main_movie bi genre_map md provider_names imdb of
                               Inl e \<Rightarrow> (Inl e, snd r2)
                             | Inr mv \<Rightarrow> (Inr (Some mv), snd r2))))))
      | _ \<Rightarrow> (Inl TypeError, w))"

fun main_candidates ::
  "builtins \<Rightarrow> (nat \<Rightarrow> reply) \<Rightarrow> string \<Rightarrow> int set \<Rightarrow> (int \<times> string) list \<Rightarrow> pyval list
     \<Rightarrow> movie list \<Rightarrow> world \<Rightarrow> (exc + movie list) \<times> world" where
  "main_candidates bi server country allowed_ids genre_map [] movies w = (Inr movies, w)"
| "main_candidates bi server country allowed_ids genre_map (m # ms) movies w =
     (let r = main_candidate bi server country allowed_ids genre_map m w in
      case fst r of
        Inl e \<Rightarrow> (Inl e, snd r)
      | Inr None \<Rightarrow> main_candidates bi server country allowed_ids genre_map ms movies (snd r)
      | Inr (Some mv) \<Rightarrow>
          main_candidates bi server country allowed_ids genre_map ms (movies @ [mv]) (snd r))"

section \<open>Ranking and grouping\<close>

text \<open>The sort key of both scripts: \<open>rank_score(x["rating"], x["votes"], x["popularity"])\<close>.\<close>

definition movie_rank :: "'a entry_scheme \<Rightarrow> exc + real" where
  "movie_rank x = rank_score (Some (rating x)) (Some (NInt (votes x))) (Some (NFloat (popularity x)))"

text \<open>
  \<open>xs.sort(key=..., reverse=True)\<close>: the keys are computed first, in order, and the first
  key that raises ends the sort; then the list is sorted by descending key, elements of
  equal key keeping their order.
\<close>

fun sequence_exc :: "(exc + 'a) list \<Rightarrow> exc + 'a list" where
  "sequence_exc [] = Inr []"
| "sequence_exc (r # rs) =
     (case r of
        Inl e \<Rightarrow> Inl e
      | Inr x \<Rightarrow> (case sequence_exc rs of Inl e \<Rightarrow> Inl e | Inr xs \<Rightarrow> Inr (x # xs)))"

definition sort_by_rank :: "'a entry_scheme list \<Rightarrow> exc + 'a entry_scheme list" where
  "sort_by_rank xs =
     (case sequence_exc (map movie_rank xs) of
        Inl e \<Rightarrow> Inl e
      | Inr ks \<Rightarrow> Inr (map snd (sort_key (\<lambda>p. - fst p) (zip ks xs))))"

text \<open>
  \<open>d.setdefault(g, []).append(mv)\<close>, and the equivalent test and append of \<open>load_movies\<close>:
  the movie is appended to the bucket of \<open>g\<close>, a new bucket being added at the end.
\<close>

fun bucket_append :: "string \<Rightarrow> 'a \<Rightarrow> (string \<times> 'a list) list \<Rightarrow> (string \<times> 'a list) list" where
  "bucket_append g mv [] = [(g, [mv])]"
| "bucket_append g mv (kb # rest) =
     (if fst kb = g then (fst kb, snd kb @ [mv]) # rest else kb # bucket_append g mv rest)"

subsection \<open>The grouping of main (movie_finder.py)\<close>

definition main_by_genre :: "'a entry_scheme list \<Rightarrow> (string \<times> 'a entry_scheme list) list" where
  "main_by_genre movies = fold (\<lambda>mv d. fold (\<lambda>g. bucket_append g mv) (genres mv) d) movies []"

text \<open>
  The loop \<open>for g in genre_names_sorted\<close>: the bucket of \<open>g\<close> is sorted by rank and, when
  the cap is positive, cut to its first entries.
\<close>

fun main_rank_buckets ::
  "int \<Rightarrow> string list \<Rightarrow> (string \<times> 'a entry_scheme list) list
     \<Rightarrow> exc + (string \<times> 'a entry_scheme list) list" where
  "main_rank_buckets cap [] by_genre = Inr by_genre"
| "main_rank_buckets cap (g # gs) by_genre =
     (case map_of by_genre g of
        None \<Rightarrow> Inl KeyError
      | Some b \<Rightarrow>
          (case sort_by_rank b of
             Inl e \<Rightarrow> Inl e
           | Inr sorted_b \<Rightarrow>
               main_rank_buckets cap gs
                 (AList.update g (if cap \<noteq> 0 \<and> cap > 0 then take (nat cap) sorted_b else sorted_b)
                    by_genre)))"

text \<open>
  The grouped result of \<open>main\<close>: the genre names sorted by their lowercase form, and the
  buckets. \<open>cap\<close> is \<open>MAX_RESULTS_PER_GENRE\<close>.
\<close>

definition main_grouping ::
  "int \<Rightarrow> 'a entry_scheme list \<Rightarrow> exc + string list \<times> (string \<times> 'a entry_scheme list) list" where
  "main_grouping cap movies =
     (let by_genre = main_by_genre movies;
          genre_names_sorted = sort_key py_lower (map fst by_genre)
      in case main_rank_buckets cap genre_names_sorted by_genre of
           Inl e \<Rightarrow> Inl e
         | Inr d \<Rightarrow> Inr (genre_names_sorted, d))"

subsection \<open>The grouping of load_movies (main.py)\<close>





section \<open>The run of main\<close>

text \<open>
  The configuration read from the environment, and \<open>main\<close> up to the grouped result (the
  files are written from it). Every \<open>_get\<close> uses the default of 3 attempts; discovery
  reads at most 5 pages.
\<close>

record config =
  country :: string
  preferred_provider_names :: "string set"
  max_results_per_genre :: int

definition main ::
  "builtins \<Rightarrow> (nat \<Rightarrow> reply) \<Rightarrow> config \<Rightarrow> world
     \<Rightarrow> (exc + string list \<times> (string \<times> movie list) list) \<times> world" where
  "main bi server cfg w =
     (let r1 = fetch_provider_id_map bi server w in
      case fst r1 of
        Inl e \<Rightarrow> (Inl e, snd r1)
      | Inr maps \<Rightarrow>
          (let allowed_ids = main_allowed_ids (preferred_provider_names cfg) (fst maps) (snd maps);
               r2 = fetch_genre_map bi server (snd r1) in
           case fst r2 of
             Inl e \<Rightarrow> (Inl e, snd r2)
           | Inr genre_map \<Rightarrow>
               (let r3 = discover_new_movies bi server 5 (snd r2) in
                case fst r3 of
                  Inl e \<Rightarrow> (Inl e, snd r3)
                | Inr candidates \<Rightarrow>
                    (let r4 = main_candidates bi server (country cfg) allowed_ids genre_map
                                candidates [] (snd r3) in
                     case fst r4 of
                       Inl e \<Rightarrow> (Inl e, snd r4)
                     | Inr movies \<Rightarrow> (main_grouping (max_results_per_genre cfg) movies, snd r4)))))"

section \<open>Properties of the provider resolution\<close>

text \<open>The keys of \<open>norm_to_pid\<close> are the normalized names of the directory.\<close>

lemma norm_to_pid_keys:
  "map_of (fold (\<lambda>kv. AList.update (norm_str (fst kv)) (snd kv)) id_map acc) n \<noteq> None
     \<longleftrightarrow> n \<in> norm_str ` fst ` set id_map \<or> map_of acc n \<noteq> None"
  by (induction id_map arbitrary: acc) (auto simp: update_conv')

text \<open>
  Non-empty preferred names resolve to no id exactly when no normalized preferred name is
  the normalized name of a provider of the directory.
\<close>

lemma resolve_preferred_ids_empty_iff:
  assumes "names \<noteq> {}"
  shows "resolve_preferred_ids names id_map = {}
           \<longleftrightarrow> norm_str ` names \<inter> norm_str ` fst ` set id_map = {}"
proof -
  let ?m = "map_of (fold (\<lambda>kv. AList.update (norm_str (fst kv)) (snd kv)) id_map [])"
  have keys: "?m n \<noteq> None \<longleftrightarrow> n \<in> norm_str ` fst ` set id_map" for n
    using norm_to_pid_keys [of id_map "[]" n] by simp
  have "resolve_preferred_ids names id_map = {} \<longleftrightarrow> (\<forall>n \<in> norm_str ` names. ?m n = None)"
    using assms by (auto simp: resolve_preferred_ids_def Let_def split: option.splits)
  also have "\<dots> \<longleftrightarrow> norm_str ` names \<inter> norm_str ` fst ` set id_map = {}"
    using keys by blast
  finally show ?thesis .
qed

text \<open>The resolved ids are ids of the directory.\<close>

lemma norm_to_pid_values:
  "map_of (fold (\<lambda>kv. AList.update (norm_str (fst kv)) (snd kv)) id_map acc) n = Some v
     \<Longrightarrow> v \<in> snd ` set id_map \<or> map_of acc n = Some v"
  by (induction id_map arbitrary: acc) (force simp: update_conv' split: if_splits)+

lemma resolve_preferred_ids_subset:
  "resolve_preferred_ids names id_map \<subseteq> snd ` set id_map"
proof (cases "names = {}")
  case True
  then show ?thesis by (simp add: resolve_preferred_ids_def)
next
  case False
  show ?thesis
  proof
    fix v assume "v \<in> resolve_preferred_ids names id_map"
    then obtain n where
      "map_of (fold (\<lambda>kv. AList.update (norm_str (fst kv)) (snd kv)) id_map []) n = Some v"
      using False by (auto simp: resolve_preferred_ids_def Let_def split: option.splits)
    from norm_to_pid_values [OF this] show "v \<in> snd ` set id_map" by simp
  qed
qed

text \<open>
  C7. The allowed set is the set of all known ids in two situations. With empty preferred
  names, \<open>resolve_preferred_ids\<close> itself returns every id of the name-to-id map, and
  \<open>main\<close> keeps that set (for an empty directory it takes the keys of the id-to-name map,
  empty as well when both maps come from one fetch). With preferred names that match
  nothing in the directory, \<open>resolve_preferred_ids\<close> returns the empty set and \<open>main\<close> falls
  back to every id of the id-to-name map instead of going on with an empty allowed set.
  In every other situation the allowed set is the non-empty set of the matched ids.
\<close>

theorem allow_all_providers:
  "resolve_preferred_ids {} id_map = snd ` set id_map
   \<and> main_allowed_ids {} id_map id_to_name
       = (if id_map = [] then fst ` set id_to_name else snd ` set id_map)
   \<and> (names \<noteq> {} \<and> norm_str ` names \<inter> norm_str ` fst ` set id_map = {}
        \<longrightarrow> resolve_preferred_ids names id_map = {}
            \<and> main_allowed_ids names id_map id_to_name = fst ` set id_to_name)
   \<and> (names \<noteq> {} \<and> norm_str ` names \<inter> norm_str ` fst ` set id_map \<noteq> {}
        \<longrightarrow> main_allowed_ids names id_map id_to_name = resolve_preferred_ids names id_map
            \<and> resolve_preferred_ids names id_map \<noteq> {}
            \<and> resolve_preferred_ids names id_map \<subseteq> snd ` set id_map)"
proof (intro conjI impI)
  show "resolve_preferred_ids {} id_map = snd ` set id_map"
    by (simp add: resolve_preferred_ids_def)
  show "main_allowed_ids {} id_map id_to_name
       = (if id_map = [] then fst ` set id_to_name else snd ` set id_map)"
    by (simp add: main_allowed_ids_def resolve_preferred_ids_def)
next
  assume a: "names \<noteq> {} \<and> norm_str ` names \<inter> norm_str ` fst ` set id_map = {}"
  then show "resolve_preferred_ids names id_map = {}"
    by (simp add: resolve_preferred_ids_empty_iff)
  then show "main_allowed_ids names id_map id_to_name = fst ` set id_to_name"
    by (simp add: main_allowed_ids_def)
next
  assume a: "names \<noteq> {} \<and> norm_str ` names \<inter> norm_str ` fst ` set id_map \<noteq> {}"
  then show ne: "resolve_preferred_ids names id_map \<noteq> {}"
    by (simp add: resolve_preferred_ids_empty_iff)
  then show "main_allowed_ids names id_map id_to_name = resolve_preferred_ids names id_map"
    by (simp add: main_allowed_ids_def)
  show "resolve_preferred_ids names id_map \<subseteq> snd ` set id_map"
    by (rule resolve_preferred_ids_subset)
qed

lemma norm_str_examples:
  "norm_str ''Foo TV'' = ''footv''" "norm_str ''netflix'' = ''netflix''" "norm_str ''hulu'' = ''hulu''"
  "norm_str ''Netflix'' = ''netflix''"
  by code_simp+

theorem allow_all_providers_witness:
  "resolve_preferred_ids {} [(''netflix'', 8), (''hulu'', 15)] = {8, 15}
   \<and> main_allowed_ids {} [(''netflix'', 8), (''hulu'', 15)] [(8, ''Netflix''), (15, ''Hulu'')] = {8, 15}
   \<and> resolve_preferred_ids {''Foo TV''} [(''netflix'', 8), (''hulu'', 15)] = {}
   \<and> main_allowed_ids {''Foo TV''} [(''netflix'', 8), (''hulu'', 15)] [(8, ''Netflix''), (15, ''Hulu'')]
        = {8, 15}
   \<and> main_allowed_ids {''Netflix''} [(''netflix'', 8), (''hulu'', 15)] [(8, ''Netflix''), (15, ''Hulu'')]
        = resolve_preferred_ids {''Netflix''} [(''netflix'', 8), (''hulu'', 15)]"
  using allow_all_providers [of "[(''netflix'', 8), (''hulu'', 15)]" "[(8, ''Netflix''), (15, ''Hulu'')]"
      "{''Foo TV''}"]
    allow_all_providers [of "[(''netflix'', 8), (''hulu'', 15)]" "[(8, ''Netflix''), (15, ''Hulu'')]"
      "{''Netflix''}"]
  by (simp add: norm_str_examples)

section \<open>Properties of the provider filter\<close>

text \<open>When an item, a section and the whole payload contribute a name.\<close>

lemma pick_item_nonempty_iff:
  "pick_item allowed_ids item \<noteq> [] \<longleftrightarrow>
     (\<exists>it i name. item = PDict it
        \<and> as_int (dict_get it ''provider_id'' PNone) = Some i \<and> i \<in> allowed_ids
        \<and> dict_get it ''provider_name'' PNone = PStr name \<and> py_strip name \<noteq> [])"
  by (auto simp: pick_item_def split: pyval.splits option.splits)

lemma pick_item_cases:
  "pick_item allowed_ids item = [] \<or> (\<exists>n. pick_item allowed_ids item = [n] \<and> n \<noteq> [])"
  by (simp add: pick_item_def split: pyval.split option.split)

lemma pick_item_names: "x \<in> set (pick_item allowed_ids item) \<Longrightarrow> x \<noteq> []"
  using pick_item_cases [of allowed_ids item] by auto

lemma pick_section_nonempty_iff:
  "pick_section provider_section allowed_ids sec \<noteq> [] \<longleftrightarrow>
     (\<exists>items. dict_get provider_section sec (PList []) = PList items
        \<and> (\<exists>item \<in> set items. pick_item allowed_ids item \<noteq> []))"
  by (auto simp: pick_section_def split: pyval.splits)

lemma pick_section_names: "x \<in> set (pick_section provider_section allowed_ids sec) \<Longrightarrow> x \<noteq> []"
  by (auto simp: pick_section_def split: pyval.splits dest: pick_item_names)

lemma pick_flatrate_providers_nonempty_iff:
  "pick_flatrate_providers provider_section allowed_ids \<noteq> [] \<longleftrightarrow>
     pick_section provider_section allowed_ids ''flatrate'' \<noteq> []
     \<or> pick_section provider_section allowed_ids ''ads'' \<noteq> []"
proof -
  have "sort (remdups xs) \<noteq> [] \<longleftrightarrow> xs \<noteq> []" for xs :: "string list"
    by (metis set_empty set_remdups set_sort)
  then show ?thesis by (simp add: pick_flatrate_providers_def Let_def)
qed

lemma pick_flatrate_providers_names:
  "x \<in> set (pick_flatrate_providers provider_section allowed_ids) \<Longrightarrow> x \<noteq> []"
  by (auto simp: pick_flatrate_providers_def Let_def dest: pick_section_names)

lemma join_comma_nonempty: "xs \<noteq> [] \<Longrightarrow> \<forall>x \<in> set xs. x \<noteq> [] \<Longrightarrow> join_comma xs \<noteq> []"
  by (induction xs rule: join_comma.induct) auto

lemma main_movie_providers:
  "main_movie bi genre_map m provider_names imdb = Inr mv \<Longrightarrow> providers mv = join_comma provider_names"
  by (auto simp: main_movie_def Let_def split: sum.splits)

lemma main_candidate_Some:
  assumes "main_candidate bi server region allowed_ids genre_map m w = (Inr (Some mv), w')"
  shows "providers mv \<noteq> []"
proof -
  from assms obtain wp imdb md where ne: "pick_flatrate_providers wp allowed_ids \<noteq> []"
    and mm: "main_movie bi genre_map md (pick_flatrate_providers wp allowed_ids) imdb = Inr mv"
    by (auto simp: main_candidate_def Let_def split: pyval.splits option.splits sum.splits if_splits)
  have "join_comma (pick_flatrate_providers wp allowed_ids) \<noteq> []"
    by (rule join_comma_nonempty [OF ne]) (auto dest: pick_flatrate_providers_names)
  then show ?thesis using main_movie_providers [OF mm] by simp
qed

text \<open>
  The loop appends one movie for each candidate that is not skipped, and every appended
  movie has a non-empty \<open>providers\<close> entry.
\<close>

lemma main_candidates_output:
  "main_candidates bi server region allowed_ids genre_map cands movies w = (Inr out, w')
     \<Longrightarrow> \<exists>new. out = movies @ new \<and> (\<forall>mv \<in> set new. providers mv \<noteq> [])
                 \<and> length new \<le> length cands"
proof (induction cands arbitrary: movies w)
  case Nil
  then show ?case by simp
next
  case (Cons m ms)
  let ?r = "main_candidate bi server region allowed_ids genre_map m w"
  show ?case
  proof (cases "fst ?r")
    case (Inl e)
    with Cons.prems show ?thesis by (simp add: Let_def)
  next
    case (Inr res)
    show ?thesis
    proof (cases res)
      case None
      with Inr Cons.prems
      have "main_candidates bi server region allowed_ids genre_map ms movies (snd ?r) = (Inr out, w')"
        by (simp add: Let_def)
      from Cons.IH [OF this] show ?thesis by auto
    next
      case (Some mv)
      with Inr Cons.prems
      have "main_candidates bi server region allowed_ids genre_map ms (movies @ [mv]) (snd ?r) = (Inr out, w')"
        by (simp add: Let_def)
      from Cons.IH [OF this] obtain new where new: "out = (movies @ [mv]) @ new"
        "\<forall>x \<in> set new. providers x \<noteq> []" "length new \<le> length ms" by blast
      have "?r = (Inr (Some mv), snd ?r)" using Inr Some by (simp add: prod_eq_iff)
      then have "providers mv \<noteq> []" by (rule main_candidate_Some)
      with new show ?thesis by (intro exI [of _ "mv # new"]) simp
    qed
  qed
qed

text \<open>
  C8. A candidate whose processing does not end the run is included in the output (a movie
  is appended for it) if and only if its picked provider list is not empty, that is, if
  and only if some entry of the \<open>flatrate\<close> or \<open>ads\<close> list of the region is a dictionary
  whose integer id is in the allowed set and whose name is a string that is not empty once
  stripped. The appended movie carries the joined picked names, a non-empty string. In
  particular a candidate whose entries all have ids outside the allowed set gives no movie.
\<close>

theorem included_iff_providers_picked:
  assumes "map_of md ''id'' = Some pid"
    and "get_watch_providers bi server region pid w = (Inr wp, w1)"
    and "main_candidate bi server region allowed_ids genre_map (PDict md) w = (Inr res, w')"
  shows "(res \<noteq> None \<longleftrightarrow> pick_flatrate_providers wp allowed_ids \<noteq> [])
       \<and> (pick_flatrate_providers wp allowed_ids \<noteq> [] \<longleftrightarrow>
            (\<exists>sec items it i name.
               (sec = ''flatrate'' \<or> sec = ''ads'')
               \<and> dict_get wp sec (PList []) = PList items \<and> PDict it \<in> set items
               \<and> as_int (dict_get it ''provider_id'' PNone) = Some i \<and> i \<in> allowed_ids
               \<and> dict_get it ''provider_name'' PNone = PStr name \<and> py_strip name \<noteq> []))
       \<and> (\<forall>mv. res = Some mv \<longrightarrow>
             providers mv = join_comma (pick_flatrate_providers wp allowed_ids) \<and> providers mv \<noteq> [])"
proof (intro conjI)
  show "res \<noteq> None \<longleftrightarrow> pick_flatrate_providers wp allowed_ids \<noteq> []"
    using assms by (auto simp: main_candidate_def Let_def split: sum.splits if_splits)
  show "pick_flatrate_providers wp allowed_ids \<noteq> [] \<longleftrightarrow>
            (\<exists>sec items it i name.
               (sec = ''flatrate'' \<or> sec = ''ads'')
               \<and> dict_get wp sec (PList []) = PList items \<and> PDict it \<in> set items
               \<and> as_int (dict_get it ''provider_id'' PNone) = Some i \<and> i \<in> allowed_ids
               \<and> dict_get it ''provider_name'' PNone = PStr name \<and> py_strip name \<noteq> [])"
    unfolding pick_flatrate_providers_nonempty_iff pick_section_nonempty_iff pick_item_nonempty_iff
    by blast
  show "\<forall>mv. res = Some mv \<longrightarrow>
          providers mv = join_comma (pick_flatrate_providers wp allowed_ids) \<and> providers mv \<noteq> []"
  proof (intro allI impI)
    fix mv assume "res = Some mv"
    with assms have ne: "pick_flatrate_providers wp allowed_ids \<noteq> []"
      and mm: "\<exists>imdb. main_movie bi genre_map md (pick_flatrate_providers wp allowed_ids) imdb = Inr mv"
      by (auto simp: main_candidate_def Let_def split: sum.splits if_splits)
    from mm have p: "providers mv = join_comma (pick_flatrate_providers wp allowed_ids)"
      by (auto dest: main_movie_providers)
    moreover have "join_comma (pick_flatrate_providers wp allowed_ids) \<noteq> []"
      by (rule join_comma_nonempty [OF ne]) (auto dest: pick_flatrate_providers_names)
    ultimately show "providers mv = join_comma (pick_flatrate_providers wp allowed_ids) \<and> providers mv \<noteq> []"
      by simp
  qed
qed


text \<open>A run of the loop body on a candidate streamed by an allowed provider.\<close>

lemma included_example_providers:
  "get_watch_providers \<lparr>int_of_str = (\<lambda>s. None), float_of_str = (\<lambda>s. None), repr = (\<lambda>v. [])\<rparr>
     (\<lambda>i. if i = 0
           then Response \<lparr>status_code = 200, retry_after = None,
                  body = Json (PDict [(''results'', PDict [(''US'', PDict [(''flatrate'',
                    PList [PDict [(''provider_id'', PInt 8), (''provider_name'', PStr ''Netflix'')]])])])])\<rparr>
           else Response \<lparr>status_code = 200, retry_after = None,
                  body = Json (PDict [(''imdb_id'', PStr ''tt1'')])\<rparr>)
     ''US'' (PInt 7) \<lparr>requests = 0, sleeps = []\<rparr>
   = (Inr [(''flatrate'', PList [PDict [(''provider_id'', PInt 8), (''provider_name'', PStr ''Netflix'')]])],
      \<lparr>requests = 1, sleeps = []\<rparr>)"
  by (simp add: get_watch_providers_def get_def get_loop_response dict_get_def Let_def)

lemma included_example_candidate:
  "main_candidate \<lparr>int_of_str = (\<lambda>s. None), float_of_str = (\<lambda>s. None), repr = (\<lambda>v. [])\<rparr>
     (\<lambda>i. if i = 0
           then Response \<lparr>status_code = 200, retry_after = None,
                  body = Json (PDict [(''results'', PDict [(''US'', PDict [(''flatrate'',
                    PList [PDict [(''provider_id'', PInt 8), (''provider_name'', PStr ''Netflix'')]])])])])\<rparr>
           else Response \<lparr>status_code = 200, retry_after = None,
                  body = Json (PDict [(''imdb_id'', PStr ''tt1'')])\<rparr>)
     ''US'' {8} [(28, ''Action'')]
     (PDict [(''id'', PInt 7), (''title'', PStr ''T''), (''genre_ids'', PList [PInt 28])])
     \<lparr>requests = 0, sleeps = []\<rparr>
   = (Inr (Some \<lparr>title = PStr ''T'', year = PStr [], rating = NFloat 0, votes = 0, popularity = 0,
                  providers = ''Netflix'', genres = [''Action''],
                  imdb_link = ''https://www.imdb.com/title/tt1/''\<rparr>),
      \<lparr>requests = 2, sleeps = []\<rparr>)"
  by (simp add: main_candidate_def included_example_providers get_imdb_id_def get_def
        get_loop_response dict_get_def Let_def pick_flatrate_providers_def pick_section_def
        pick_item_def py_strip_def is_space_def py_str_def main_movie_def field_genres_def
        field_year_def field_rating_def field_votes_def field_popularity_def field_title_def
        py_or_def round_half_even_def)

theorem included_iff_providers_picked_witness:
  "pick_flatrate_providers
     [(''flatrate'', PList [PDict [(''provider_id'', PInt 8), (''provider_name'', PStr ''Netflix'')]])] {8}
     \<noteq> []
   \<and> join_comma (pick_flatrate_providers
     [(''flatrate'', PList [PDict [(''provider_id'', PInt 8), (''provider_name'', PStr ''Netflix'')]])] {8})
     = ''Netflix''"
  using included_iff_providers_picked [OF _ included_example_providers included_example_candidate]
  by simp

section \<open>Properties of the coerced fields\<close>

text \<open>Rounding half to even moves a number by at most one half.\<close>

lemma round_half_even_close: "\<bar>real_of_int (round_half_even y) - y\<bar> \<le> 1 / 2"
proof -
  define f where "f = \<lfloor>y\<rfloor>"
  define d where "d = y - real_of_int f"
  have d: "0 \<le> d" "d < 1" unfolding d_def f_def by linarith+
  have y: "y = real_of_int f + d" by (simp add: d_def)
  have diff: "real_of_int f - y = - d" "real_of_int (f + 1) - y = 1 - d"
    by (simp_all add: d_def)
  have "round_half_even y = f \<and> d \<le> 1 / 2 \<or> round_half_even y = f + 1 \<and> 1 / 2 \<le> d"
    unfolding round_half_even_def Let_def f_def [symmetric] d_def [symmetric]
    by (cases "d < 1 / 2"; cases "1 / 2 < d") auto
  then show ?thesis
  proof
    assume a: "round_half_even y = f \<and> d \<le> 1 / 2"
    then have "\<bar>real_of_int (round_half_even y) - y\<bar> = d"
      using diff(1) d(1) by simp
    then show ?thesis using a by simp
  next
    assume a: "round_half_even y = f + 1 \<and> 1 / 2 \<le> d"
    then have "\<bar>real_of_int (round_half_even y) - y\<bar> = 1 - d"
      using diff(2) d(2) by simp
    then show ?thesis using a by simp
  qed
qed

text \<open>Both scripts store the values of the field expressions.\<close>

lemma main_movie_fields:
  assumes "main_movie bi genre_map m provider_names imdb = Inr mv"
  shows "field_year m = Inr (year mv)" "field_rating m = Inr (rating mv)"
    "field_votes bi m = Inr (votes mv)" "field_popularity bi m = Inr (popularity mv)"
  using assms by (auto simp: main_movie_def Let_def split: sum.splits)

lemma load_movies_movie_data_fields:
  assumes "load_movies_movie_data bi genre_map m provider_names imdb = Inr md"
  shows "field_year m = Inr (year md)" "field_rating m = Inr (rating md)"
    "field_votes bi m = Inr (votes md)" "field_popularity bi m = Inr (popularity md)"
  using assms by (auto simp: load_movies_movie_data_def split: sum.splits)

lemma field_rating_float:
  assumes "map_of m ''vote_average'' = Some (PFloat r)"
  shows "\<exists>k. field_rating m = Inr (NFloat (real_of_int k / 10)) \<and> \<bar>real_of_int k / 10 - r\<bar> \<le> 1 / 20"
proof -
  let ?k = "round_half_even (r * 10)"
  have "\<bar>real_of_int ?k - r * 10\<bar> \<le> 1 / 2" by (rule round_half_even_close)
  moreover have e: "real_of_int ?k / 10 - r = (real_of_int ?k - r * 10) / 10"
    by (simp add: diff_divide_distrib)
  have "\<bar>(real_of_int ?k - r * 10) / 10\<bar> = \<bar>real_of_int ?k - r * 10\<bar> / 10"
    by simp
  with e have "\<bar>real_of_int ?k / 10 - r\<bar> = \<bar>real_of_int ?k - r * 10\<bar> / 10"
    by (simp only:)
  ultimately have "\<bar>real_of_int ?k / 10 - r\<bar> \<le> 1 / 20" by simp
  moreover have "field_rating m = Inr (NFloat (real_of_int ?k / 10))"
    using assms by (simp add: field_rating_def dict_get_def)
  ultimately show ?thesis by blast
qed

text \<open>
  C3 (amended). For every candidate accepted into the output, both scripts store the
  values of the same field expressions, which give: the rating 0.0 when \<open>vote_average\<close> is
  missing, and the float rounded to 1 decimal (a multiple of 0.1 within 0.05 of it) when
  it is a float; the vote count 0 when \<open>vote_count\<close> is missing or null, and the integer
  itself when it is an integer; the popularity 0.0 when \<open>popularity\<close> is missing or null,
  and the float itself when it is a float; the year as the first 4 characters of the
  release-date string, and the empty string when \<open>release_date\<close> is missing or null. The
  vote count and the popularity are thus non-negative whenever the candidate's values are;
  a negative value is kept as it is.
\<close>

theorem movie_fields_coerced:
  "(main_movie bi genre_map m provider_names imdb = Inr mv \<longrightarrow>
      field_year m = Inr (year mv) \<and> field_rating m = Inr (rating mv)
      \<and> field_votes bi m = Inr (votes mv) \<and> field_popularity bi m = Inr (popularity mv))
   \<and> (load_movies_movie_data bi genre_map m provider_names imdb = Inr md \<longrightarrow>
      field_year m = Inr (year md) \<and> field_rating m = Inr (rating md)
      \<and> field_votes bi m = Inr (votes md) \<and> field_popularity bi m = Inr (popularity md))
   \<and> (map_of m ''vote_average'' = None \<longrightarrow> field_rating m = Inr (NFloat 0))
   \<and> (map_of m ''vote_average'' = Some (PFloat r) \<longrightarrow>
        (\<exists>k. field_rating m = Inr (NFloat (real_of_int k / 10)) \<and> \<bar>real_of_int k / 10 - r\<bar> \<le> 1 / 20))
   \<and> (map_of m ''vote_count'' = None \<or> map_of m ''vote_count'' = Some PNone \<longrightarrow>
        field_votes bi m = Inr 0)
   \<and> (map_of m ''vote_count'' = Some (PInt n) \<longrightarrow> field_votes bi m = Inr n)
   \<and> (map_of m ''popularity'' = None \<or> map_of m ''popularity'' = Some PNone \<longrightarrow>
        field_popularity bi m = Inr 0)
   \<and> (map_of m ''popularity'' = Some (PFloat p) \<longrightarrow> field_popularity bi m = Inr p)
   \<and> (map_of m ''release_date'' = None \<or> map_of m ''release_date'' = Some PNone \<longrightarrow>
        field_year m = Inr (PStr []))
   \<and> (map_of m ''release_date'' = Some (PStr s) \<longrightarrow> field_year m = Inr (PStr (take 4 s)))"
proof (intro conjI impI)
  assume "main_movie bi genre_map m provider_names imdb = Inr mv"
  from main_movie_fields [OF this]
  show "field_year m = Inr (year mv)" "field_rating m = Inr (rating mv)"
    "field_votes bi m = Inr (votes mv)" "field_popularity bi m = Inr (popularity mv)" .
next
  assume "load_movies_movie_data bi genre_map m provider_names imdb = Inr md"
  from load_movies_movie_data_fields [OF this]
  show "field_year m = Inr (year md)" "field_rating m = Inr (rating md)"
    "field_votes bi m = Inr (votes md)" "field_popularity bi m = Inr (popularity md)" .
next
  assume "map_of m ''vote_average'' = None"
  then show "field_rating m = Inr (NFloat 0)" by (simp add: field_rating_def dict_get_def round_half_even_def)
next
  assume "map_of m ''vote_average'' = Some (PFloat r)"
  then show "\<exists>k. field_rating m = Inr (NFloat (real_of_int k / 10)) \<and> \<bar>real_of_int k / 10 - r\<bar> \<le> 1 / 20"
    by (rule field_rating_float)
next
  assume "map_of m ''vote_count'' = None \<or> map_of m ''vote_count'' = Some PNone"
  then show "field_votes bi m = Inr 0" by (auto simp: field_votes_def dict_get_def py_or_def)
next
  assume "map_of m ''vote_count'' = Some (PInt n)"
  then show "field_votes bi m = Inr n" by (simp add: field_votes_def dict_get_def py_or_def)
next
  assume "map_of m ''popularity'' = None \<or> map_of m ''popularity'' = Some PNone"
  then show "field_popularity bi m = Inr 0" by (auto simp: field_popularity_def dict_get_def py_or_def)
next
  assume "map_of m ''popularity'' = Some (PFloat p)"
  then show "field_popularity bi m = Inr p" by (simp add: field_popularity_def dict_get_def py_or_def)
next
  assume "map_of m ''release_date'' = None \<or> map_of m ''release_date'' = Some PNone"
  then show "field_year m = Inr (PStr [])" by (auto simp: field_year_def dict_get_def py_or_def)
next
  assume "map_of m ''release_date'' = Some (PStr s)"
  then show "field_year m = Inr (PStr (take 4 s))" by (cases s) (simp_all add: field_year_def dict_get_def py_or_def)
qed

lemma coerced_example:
  "main_movie \<lparr>int_of_str = (\<lambda>s. None), float_of_str = (\<lambda>s. None), repr = (\<lambda>v. [])\<rparr> [(28, ''Action'')]
     [(''id'', PInt 7), (''title'', PStr ''T''), (''release_date'', PStr ''2024-05-01''),
      (''vote_average'', PFloat (725 / 100)), (''vote_count'', PInt 500), (''popularity'', PFloat 45),
      (''genre_ids'', PList [PInt 28])]
     [''Netflix''] None
   = Inr \<lparr>title = PStr ''T'', year = PStr ''2024'', rating = NFloat (72 / 10), votes = 500,
           popularity = 45, providers = ''Netflix'', genres = [''Action''], imdb_link = []\<rparr>"
  by (simp add: main_movie_def field_genres_def field_year_def field_rating_def field_votes_def
        field_popularity_def field_title_def py_or_def dict_get_def round_half_even_def Let_def)

lemma coerced_example_load_movies:
  "load_movies_movie_data \<lparr>int_of_str = (\<lambda>s. None), float_of_str = (\<lambda>s. None), repr = (\<lambda>v. [])\<rparr>
     [(28, ''Action'')]
     [(''id'', PInt 7), (''title'', PStr ''T''), (''release_date'', PStr ''2024-05-01''),
      (''vote_average'', PFloat (725 / 100)), (''vote_count'', PInt 500), (''popularity'', PFloat 45),
      (''genre_ids'', PList [PInt 28])]
     [''Netflix''] None
   = Inr \<lparr>title = PStr ''T'', year = PStr ''2024'', rating = NFloat (72 / 10), votes = 500,
           popularity = 45, providers = ''Netflix'', genres = [''Action''], imdb_id = None\<rparr>"
  by (simp add: load_movies_movie_data_def field_genres_def field_year_def field_rating_def
        field_votes_def field_popularity_def field_title_def py_or_def dict_get_def
        round_half_even_def)

theorem movie_fields_coerced_witness:
  "field_year [(''id'', PInt 7), (''title'', PStr ''T''), (''release_date'', PStr ''2024-05-01''),
      (''vote_average'', PFloat (725 / 100)), (''vote_count'', PInt 500), (''popularity'', PFloat 45),
      (''genre_ids'', PList [PInt 28])] = Inr (PStr ''2024'')
   \<and> field_rating [(''id'', PInt 7), (''title'', PStr ''T''), (''release_date'', PStr ''2024-05-01''),
      (''vote_average'', PFloat (725 / 100)), (''vote_count'', PInt 500), (''popularity'', PFloat 45),
      (''genre_ids'', PList [PInt 28])] = Inr (NFloat (72 / 10))
   \<and> field_votes \<lparr>int_of_str = (\<lambda>s. None), float_of_str = (\<lambda>s. None), repr = (\<lambda>v. [])\<rparr>
      [(''id'', PInt 7), (''title'', PStr ''T''), (''release_date'', PStr ''2024-05-01''),
      (''vote_average'', PFloat (725 / 100)), (''vote_count'', PInt 500), (''popularity'', PFloat 45),
      (''genre_ids'', PList [PInt 28])] = Inr 500
   \<and> field_popularity \<lparr>int_of_str = (\<lambda>s. None), float_of_str = (\<lambda>s. None), repr = (\<lambda>v. [])\<rparr>
      [(''id'', PInt 7), (''title'', PStr ''T''), (''release_date'', PStr ''2024-05-01''),
      (''vote_average'', PFloat (725 / 100)), (''vote_count'', PInt 500), (''popularity'', PFloat 45),
      (''genre_ids'', PList [PInt 28])] = Inr 45"
  using movie_fields_coerced
    [of "\<lparr>int_of_str = (\<lambda>s. None), float_of_str = (\<lambda>s. None), repr = (\<lambda>v. [])\<rparr>" "[(28, ''Action'')]"
       "[(''id'', PInt 7), (''title'', PStr ''T''), (''release_date'', PStr ''2024-05-01''),
      (''vote_average'', PFloat (725 / 100)), (''vote_count'', PInt 500), (''popularity'', PFloat 45),
      (''genre_ids'', PList [PInt 28])]" "[''Netflix'']" None
       "\<lparr>title = PStr ''T'', year = PStr ''2024'', rating = NFloat (72 / 10), votes = 500,
           popularity = 45, providers = ''Netflix'', genres = [''Action''], imdb_link = []\<rparr>"
       "\<lparr>title = PStr ''T'', year = PStr ''2024'', rating = NFloat (72 / 10), votes = 500,
           popularity = 45, providers = ''Netflix'', genres = [''Action''], imdb_id = None\<rparr>"
       "725 / 100" 500 45 "''2024-05-01''"]
    coerced_example coerced_example_load_movies
  by simp

text \<open>
  C3 as stated does not hold: a candidate with a negative vote count and popularity is
  accepted with these negative values (the clamp to 0 is in \<open>rank_score\<close>, not here), and a
  \<open>vote_average\<close> that is null or a string makes \<open>round\<close> raise \<open>TypeError\<close> instead of
  giving the default 0.0.
\<close>

theorem negative_votes_and_popularity_kept:
  "main_movie \<lparr>int_of_str = (\<lambda>s. None), float_of_str = (\<lambda>s. None), repr = (\<lambda>v. [])\<rparr> []
     [(''id'', PInt 1), (''vote_count'', PInt (- 5)), (''popularity'', PFloat (- 3))] [''Netflix''] None
   = Inr \<lparr>title = PStr [], year = PStr [], rating = NFloat 0, votes = - 5, popularity = - 3,
           providers = ''Netflix'', genres = [''Uncategorized''], imdb_link = []\<rparr>
   \<and> field_rating [(''id'', PInt 1), (''vote_average'', PNone)] = Inl TypeError
   \<and> field_rating [(''id'', PInt 1), (''vote_average'', PStr ''n/a'')] = Inl TypeError"
  by (simp add: main_movie_def field_genres_def field_year_def field_rating_def field_votes_def
        field_popularity_def field_title_def py_or_def dict_get_def round_half_even_def Let_def)

section \<open>A 401 reply ends the run\<close>

text \<open>
  Two ways to extend a computation that stops at a 401: keep its final state and its
  authentication failure, or go on from its final state when it did not fail so.
\<close>

lemma stops_at_401_same_world:
  assumes "stops_at_401 server w r"
    and "snd rw = snd r"
    and "fst r = Inl (SystemExit AuthFailed) \<Longrightarrow> fst rw = Inl (SystemExit AuthFailed)"
  shows "stops_at_401 server w rw"
  using assms unfolding stops_at_401_def by auto

lemma stops_at_401_then:
  assumes "stops_at_401 server w r"
    and "fst r \<noteq> Inl (SystemExit AuthFailed)"
    and "stops_at_401 server (snd r) rw"
  shows "stops_at_401 server w rw"
  unfolding stops_at_401_def
proof (rule conjI, goal_cases)
  case 1
  show ?case using assms(1,3) by (simp add: stops_at_401_def)
next
  case 2
  show ?case
  proof (intro allI impI)
    fix i
    assume i: "requests w \<le> i \<and> i < requests (snd rw) \<and> is_401 (server i)"
    have "\<not> i < requests (snd r)"
    proof
      assume "i < requests (snd r)"
      with i assms(1) have "fst r = Inl (SystemExit AuthFailed)"
        unfolding stops_at_401_def by blast
      with assms(2) show False by simp
    qed
    then have "requests (snd r) \<le> i \<and> i < requests (snd rw) \<and> is_401 (server i)"
      using i by simp
    then show "fst rw = Inl (SystemExit AuthFailed) \<and> requests (snd rw) = i + 1"
      using assms(3) unfolding stops_at_401_def by blast
  qed
qed

text \<open>
  Every function that calls \<open>_get\<close> stops at a 401: the handlers \<open>except Exception\<close> of
  \<open>discover_new_movies\<close>, \<open>get_watch_providers\<close> and \<open>get_imdb_id\<close> do not catch
  \<open>SystemExit\<close>.
\<close>

lemma get_stops_at_401: "stops_at_401 server w (get bi server n w)"
  by (simp add: get_def get_loop_stops_at_401)

lemma fetch_provider_id_map_stops_at_401:
  "stops_at_401 server w (fetch_provider_id_map bi server w)"
  by (rule stops_at_401_same_world [OF get_stops_at_401 [of server w bi 3]])
     (auto simp: fetch_provider_id_map_def Let_def split: sum.splits pyval.splits)

lemma fetch_genre_map_stops_at_401:
  "stops_at_401 server w (fetch_genre_map bi server w)"
  by (rule stops_at_401_same_world [OF get_stops_at_401 [of server w bi 3]])
     (auto simp: fetch_genre_map_def Let_def split: sum.splits pyval.splits)

lemma get_watch_providers_stops_at_401:
  "stops_at_401 server w (get_watch_providers bi server region movie_id w)"
  by (rule stops_at_401_same_world [OF get_stops_at_401 [of server w bi 3]])
     (auto simp: get_watch_providers_def Let_def split: sum.splits pyval.splits)

lemma get_imdb_id_stops_at_401:
  "stops_at_401 server w (get_imdb_id bi server movie_id w)"
  by (rule stops_at_401_same_world [OF get_stops_at_401 [of server w bi 3]])
     (auto simp: get_imdb_id_def Let_def split: sum.splits pyval.splits)


lemma discover_loop_stops_at_401:
  "stops_at_401 server w (discover_loop bi server pages page results w)"
proof (induction "Suc pages - page" arbitrary: page results w)
  case 0
  then have "pages < page" by simp
  then show ?case by (subst discover_loop.simps) (simp add: stops_at_401_none)
next
  case (Suc n)
  then have le: "\<not> pages < page" and n: "n = Suc pages - (page + 1)" by simp_all
  note IH = Suc.hyps(1) [OF n]
  define r where "r = get bi server 3 w"
  have g: "stops_at_401 server w r" by (simp add: r_def get_stops_at_401)
  have same: "stops_at_401 server w (x, snd r)"
    if "fst r = Inl (SystemExit AuthFailed) \<Longrightarrow> x = Inl (SystemExit AuthFailed)"
    for x :: "exc + pyval list"
    by (rule stops_at_401_same_world [OF g]) (simp_all add: that)
  have next_page: "stops_at_401 server w (discover_loop bi server pages (Suc page) rs (snd r))"
    if "fst r \<noteq> Inl (SystemExit AuthFailed)" for rs
    using stops_at_401_then [OF g that IH] by simp
  have exc: "e \<noteq> SystemExit AuthFailed" if "is_Exception e" for e
    using that by auto
  show ?case
    by (subst discover_loop.simps)
       (auto simp: le Let_def r_def [symmetric] intro!: same next_page dest: exc
             split: sum.splits pyval.splits option.splits)
qed

lemma discover_new_movies_stops_at_401:
  "stops_at_401 server w (discover_new_movies bi server pages w)"
  by (simp add: discover_new_movies_def discover_loop_stops_at_401)

lemma main_candidate_stops_at_401:
  "stops_at_401 server w (main_candidate bi server region allowed_ids genre_map m w)"
proof (cases m)
  case (PDict md)
  show ?thesis
  proof (cases "map_of md ''id''")
    case None
    then show ?thesis by (simp add: PDict main_candidate_def stops_at_401_none)
  next
    case (Some pid)
    define r1 where "r1 = get_watch_providers bi server region pid w"
    have g1: "stops_at_401 server w r1" by (simp add: r1_def get_watch_providers_stops_at_401)
    show ?thesis
    proof (cases "fst r1")
      case (Inl e)
      have "stops_at_401 server w (Inl e :: exc + movie option, snd r1)"
        by (rule stops_at_401_same_world [OF g1]) (simp_all add: Inl)
      then show ?thesis
        by (simp add: PDict Some main_candidate_def Let_def r1_def [symmetric] Inl)
    next
      case (Inr wp)
      then have no: "fst r1 \<noteq> Inl (SystemExit AuthFailed)" by simp
      define r2 where "r2 = get_imdb_id bi server pid (snd r1)"
      have g2: "stops_at_401 server (snd r1) r2" by (simp add: r2_def get_imdb_id_stops_at_401)
      have skip: "stops_at_401 server w (Inr None :: exc + movie option, snd r1)"
        by (rule stops_at_401_same_world [OF g1]) (simp_all add: Inr)
      have after: "stops_at_401 server w (x, snd r2)"
        if "fst r2 = Inl (SystemExit AuthFailed) \<Longrightarrow> x = Inl (SystemExit AuthFailed)"
        for x :: "exc + movie option"
        by (rule stops_at_401_then [OF g1 no], rule stops_at_401_same_world [OF g2])
           (simp_all add: that)
      show ?thesis
        by (auto simp: PDict Some main_candidate_def Let_def r1_def [symmetric] Inr
              r2_def [symmetric] intro!: skip after split: sum.splits)
    qed
  qed
qed (simp_all add: main_candidate_def stops_at_401_none)

lemma main_candidates_stops_at_401:
  "stops_at_401 server w (main_candidates bi server region allowed_ids genre_map cands movies w)"
proof (induction cands arbitrary: movies w)
  case Nil
  show ?case by (simp add: stops_at_401_none)
next
  case (Cons m ms)
  define r where "r = main_candidate bi server region allowed_ids genre_map m w"
  have g: "stops_at_401 server w r" by (simp add: r_def main_candidate_stops_at_401)
  show ?case
  proof (cases "fst r")
    case (Inl e)
    have "stops_at_401 server w (Inl e :: exc + movie list, snd r)"
      by (rule stops_at_401_same_world [OF g]) (simp_all add: Inl)
    then show ?thesis by (simp add: Let_def r_def [symmetric] Inl)
  next
    case (Inr res)
    then have no: "fst r \<noteq> Inl (SystemExit AuthFailed)" by simp
    show ?thesis
      using stops_at_401_then [OF g no Cons.IH]
      by (simp add: Let_def r_def [symmetric] Inr split: option.split)
  qed
qed

lemma main_stops_at_401: "stops_at_401 server w (main bi server cfg w)"
proof -
  define r1 where "r1 = fetch_provider_id_map bi server w"
  have g1: "stops_at_401 server w r1" by (simp add: r1_def fetch_provider_id_map_stops_at_401)
  show ?thesis
  proof (cases "fst r1")
    case (Inl e)
    have "stops_at_401 server w (Inl e :: exc + string list \<times> (string \<times> movie list) list, snd r1)"
      by (rule stops_at_401_same_world [OF g1]) (simp_all add: Inl)
    then show ?thesis by (simp add: main_def Let_def r1_def [symmetric] Inl)
  next
    case (Inr maps)
    then have no1: "fst r1 \<noteq> Inl (SystemExit AuthFailed)" by simp
    define r2 where "r2 = fetch_genre_map bi server (snd r1)"
    have g2: "stops_at_401 server w r2"
      by (rule stops_at_401_then [OF g1 no1]) (simp add: r2_def fetch_genre_map_stops_at_401)
    show ?thesis
    proof (cases "fst r2")
      case (Inl e)
      have "stops_at_401 server w (Inl e :: exc + string list \<times> (string \<times> movie list) list, snd r2)"
        by (rule stops_at_401_same_world [OF g2]) (simp_all add: Inl)
      then show ?thesis by (simp add: main_def Let_def r1_def [symmetric] Inr r2_def [symmetric] Inl)
    next
      case r2_ok: (Inr genre_map)
      then have no2: "fst r2 \<noteq> Inl (SystemExit AuthFailed)" by simp
      define r3 where "r3 = discover_new_movies bi server 5 (snd r2)"
      have g3: "stops_at_401 server w r3"
        by (rule stops_at_401_then [OF g2 no2]) (simp add: r3_def discover_new_movies_stops_at_401)
      show ?thesis
      proof (cases "fst r3")
        case (Inl e)
        have "stops_at_401 server w (Inl e :: exc + string list \<times> (string \<times> movie list) list, snd r3)"
          by (rule stops_at_401_same_world [OF g3]) (simp_all add: Inl)
        then show ?thesis
          by (simp add: main_def Let_def r1_def [symmetric] Inr r2_def [symmetric] r2_ok
                r3_def [symmetric] Inl)
      next
        case r3_ok: (Inr candidates)
        then have no3: "fst r3 \<noteq> Inl (SystemExit AuthFailed)" by simp
        define r4 where "r4 = main_candidates bi server (country cfg)
            (main_allowed_ids (preferred_provider_names cfg) (fst maps) (snd maps)) genre_map
            candidates [] (snd r3)"
        have g4: "stops_at_401 server w r4"
          by (rule stops_at_401_then [OF g3 no3]) (simp add: r4_def main_candidates_stops_at_401)
        have "stops_at_401 server w (x, snd r4)"
          if "fst r4 = Inl (SystemExit AuthFailed) \<Longrightarrow> x = Inl (SystemExit AuthFailed)"
          for x :: "exc + string list \<times> (string \<times> movie list) list"
          by (rule stops_at_401_same_world [OF g4]) (simp_all add: that)
        then show ?thesis
          by (auto simp: main_def Let_def r1_def [symmetric] Inr r2_def [symmetric] r2_ok
                r3_def [symmetric] r3_ok r4_def [symmetric] split: sum.splits)
      qed
    qed
  qed
qed

text \<open>
  C5. Whenever a request of the run receives status 401, whichever function issued it
  (the directory fetches, a page of the discovery, the providers or the IMDb id of a
  movie), the run ends with the fatal authentication error and that request is the last
  one the run issues.
\<close>

theorem run_ends_at_first_401:
  assumes "main bi server cfg w0 = (res, w)"
    and "requests w0 \<le> i" and "i < requests w"
    and "server i = Response r" and "status_code r = 401"
  shows "res = Inl (SystemExit AuthFailed) \<and> requests w = i + 1"
proof -
  have "stops_at_401 server w0 (res, w)"
    using main_stops_at_401 [of server w0 bi cfg] assms(1) by simp
  moreover have "is_401 (server i)" using assms(4,5) by simp
  ultimately show ?thesis
    using assms(2,3) unfolding stops_at_401_def by auto
qed

text \<open>A run whose fourth request, the providers of the first candidate, receives a 401.\<close>

lemma run_401_example:
  "main \<lparr>int_of_str = (\<lambda>s. None), float_of_str = (\<lambda>s. None), repr = (\<lambda>v. [])\<rparr>
     (\<lambda>i. if i = 0 then Response \<lparr>status_code = 200, retry_after = None,
                body = Json (PDict [(''results'',
                  PList [PDict [(''provider_id'', PInt 8), (''provider_name'', PStr ''Netflix'')]])])\<rparr>
           else if i = 1 then Response \<lparr>status_code = 200, retry_after = None,
                body = Json (PDict [(''genres'', PList [PDict [(''id'', PInt 28), (''name'', PStr ''Action'')]])])\<rparr>
           else if i = 2 then Response \<lparr>status_code = 200, retry_after = None,
                body = Json (PDict [(''results'', PList [PDict [(''id'', PInt 7)]]), (''total_pages'', PInt 1)])\<rparr>
           else Response \<lparr>status_code = 401, retry_after = None, body = Json (PDict [])\<rparr>)
     \<lparr>country = ''US'', preferred_provider_names = {}, max_results_per_genre = 0\<rparr>
     \<lparr>requests = 0, sleeps = []\<rparr>
   = (Inl (SystemExit AuthFailed), \<lparr>requests = 4, sleeps = []\<rparr>)"
  by code_simp

theorem run_ends_at_first_401_witness:
  "fst (main \<lparr>int_of_str = (\<lambda>s. None), float_of_str = (\<lambda>s. None), repr = (\<lambda>v. [])\<rparr>
     (\<lambda>i. if i = 0 then Response \<lparr>status_code = 200, retry_after = None,
                body = Json (PDict [(''results'',
                  PList [PDict [(''provider_id'', PInt 8), (''provider_name'', PStr ''Netflix'')]])])\<rparr>
           else if i = 1 then Response \<lparr>status_code = 200, retry_after = None,
                body = Json (PDict [(''genres'', PList [PDict [(''id'', PInt 28), (''name'', PStr ''Action'')]])])\<rparr>
           else if i = 2 then Response \<lparr>status_code = 200, retry_after = None,
                body = Json (PDict [(''results'', PList [PDict [(''id'', PInt 7)]]), (''total_pages'', PInt 1)])\<rparr>
           else Response \<lparr>status_code = 401, retry_after = None, body = Json (PDict [])\<rparr>)
     \<lparr>country = ''US'', preferred_provider_names = {}, max_results_per_genre = 0\<rparr>
     \<lparr>requests = 0, sleeps = []\<rparr>) = Inl (SystemExit AuthFailed)"
  using run_ends_at_first_401 [OF run_401_example, of 3 "\<lparr>status_code = 401, retry_after = None, body = Json (PDict [])\<rparr>"]
    run_401_example
  by simp

section \<open>Properties of the grouping\<close>


























end
